theory Spec2Isabelle
  imports Complex_Main "HOL-Library.Sublist"
begin

section \<open>Data model\<close>

text \<open>
  JavaScript numbers are modelled as \<^typ>\<open>real\<close>: the comparisons, products and sums
  of the source are read as exact arithmetic. The program computes in double precision,
  where a sum of several products is rounded at every step, so the closed forms proved
  below for the running total of several foods are facts about the model. The theorems on
  the aggregator use them only for signs, for the keys, and for equalities between runs
  that perform the same operations; what they state exactly about amounts involves only
  \<open>x * 1\<close>, \<open>x * 0.5\<close> against \<open>x / 2\<close>, \<open>x * c\<close> against \<open>c * x\<close>, and
  \<open>0 + y\<close>, which round the same way in double precision.
  An object is a finite map from its keys
  to values, so that a key the object does not carry reads as \<open>None\<close> (JavaScript's
  \<open>undefined\<close>). Strings are \<^typ>\<open>string\<close>; names are taken to be ASCII.
\<close>

datatype nutrientKey =
    calories | protein | carbs | fat | fiber | sugar | sodium | potassium
  | cholesterol | saturatedFat | transFat | vitaminA | vitaminC | calcium | iron

type_synonym nutrition = "nutrientKey \<rightharpoonup> real"

datatype riskType =
  high_carbs | high_sugar | high_sodium | high_potassium | high_fat | high_calories

datatype severity = low | warning | danger

text \<open>
  A template literal is kept as the list of its parts: \<open>Fixed d v\<close> stands for
  \<open>v.toFixed(d)\<close>, whose digits are not needed by any property below.
\<close>

datatype msgPart = Lit string | Fixed nat real

record riskFinding =
  type :: riskType
  severity :: severity
  message :: "msgPart list"
  "value" :: real
  threshold :: real

record generalWarning =
  warningType :: riskType
  warningMessage :: "msgPart list"

record healthCondition =
  condition :: string
  details :: string

record userProfile =
  healthConditions :: "healthCondition list option"

record healthAnalysis =
  risks :: "riskFinding list"
  warnings :: "generalWarning list"

section \<open>Risk evaluator: \<open>analyzeHealthRisks\<close>\<close>

text \<open>\<open>conditions.some(c => c.condition === code)\<close>\<close>

definition hasCondition :: "healthCondition list \<Rightarrow> string \<Rightarrow> bool" where
  "hasCondition conditions code = list_ex (\<lambda>c. condition c = code) conditions"

text \<open>
  One guarded \<open>risks.push\<close>: \<open>if (nutrition[key] > limit) risks.push({...})\<close>. A key
  that is absent compares as \<open>undefined > limit\<close>, which is false.
\<close>

definition pushIfAbove ::
  "nutrition \<Rightarrow> nutrientKey \<Rightarrow> real \<Rightarrow> (real \<Rightarrow> riskFinding) \<Rightarrow> riskFinding list" where
  "pushIfAbove n key limit mk =
     (case n key of
        None \<Rightarrow> []
      | Some v \<Rightarrow> if v > limit then [mk v] else [])"

definition carbsFinding :: "real \<Rightarrow> riskFinding" where
  "carbsFinding v =
     \<lparr>type = high_carbs, severity = warning,
      message = [Lit ''High carbohydrate content ('', Fixed 1 v,
                 Lit ''g). Consider smaller portion for diabetes management.''],
      value = v, threshold = 60\<rparr>"

definition sugarFinding :: "real \<Rightarrow> riskFinding" where
  "sugarFinding v =
     \<lparr>type = high_sugar, severity = danger,
      message = [Lit ''High sugar content ('', Fixed 1 v,
                 Lit ''g). This may spike your blood sugar levels.''],
      value = v, threshold = 15\<rparr>"

definition sodiumFinding :: "real \<Rightarrow> riskFinding" where
  "sodiumFinding v =
     \<lparr>type = high_sodium, severity = danger,
      message = [Lit ''High sodium content ('', Fixed 1 v,
                 Lit ''mg). This may increase your blood pressure.''],
      value = v, threshold = 500\<rparr>"

definition potassiumFinding :: "real \<Rightarrow> riskFinding" where
  "potassiumFinding v =
     \<lparr>type = high_potassium, severity = danger,
      message = [Lit ''High potassium content ('', Fixed 1 v,
                 Lit ''mg). Limit intake for kidney health.''],
      value = v, threshold = 400\<rparr>"

definition fatFinding :: "real \<Rightarrow> riskFinding" where
  "fatFinding v =
     \<lparr>type = high_fat, severity = warning,
      message = [Lit ''High fat content ('', Fixed 1 v,
                 Lit ''g). Consider leaner alternatives.''],
      value = v, threshold = 20\<rparr>"

definition caloriesWarning :: "real \<Rightarrow> generalWarning" where
  "caloriesWarning v =
     \<lparr>warningType = high_calories,
      warningMessage = [Lit ''High calorie meal ('', Fixed 0 v,
                        Lit '' calories). Consider portion control.'']\<rparr>"

text \<open>
  The body of \<open>analyzeHealthRisks\<close> after the guard on the profile: the five condition
  blocks in source order, each appending to \<open>risks\<close>, then the general calorie check
  appending to \<open>warnings\<close>.
\<close>

definition conditionRisks :: "nutrition \<Rightarrow> healthCondition list \<Rightarrow> riskFinding list" where
  "conditionRisks n conditions =
     (if hasCondition conditions ''diabetes''
      then pushIfAbove n carbs 60 carbsFinding @ pushIfAbove n sugar 15 sugarFinding
      else [])
   @ (if hasCondition conditions ''bp''
      then pushIfAbove n sodium 500 sodiumFinding else [])
   @ (if hasCondition conditions ''kidney''
      then pushIfAbove n potassium 400 potassiumFinding else [])
   @ (if hasCondition conditions ''cholesterol''
      then pushIfAbove n fat 20 fatFinding else [])"

definition generalWarnings :: "nutrition \<Rightarrow> generalWarning list" where
  "generalWarnings n =
     (case n calories of
        None \<Rightarrow> []
      | Some v \<Rightarrow> if v > 600 then [caloriesWarning v] else [])"

definition analyzeHealthRisks :: "nutrition \<Rightarrow> userProfile option \<Rightarrow> healthAnalysis" where
  "analyzeHealthRisks n profile =
     (case profile of
        None \<Rightarrow> \<lparr>risks = [], warnings = []\<rparr>
      | Some p \<Rightarrow>
          (let conditions = (case healthConditions p of None \<Rightarrow> [] | Some cs \<Rightarrow> cs)
           in \<lparr>risks = conditionRisks n conditions, warnings = generalWarnings n\<rparr>))"

section \<open>Food extractor: \<open>extractFoodItems\<close>\<close>

text \<open>
  What the vision service returns: label annotations carry \<open>description\<close> and
  \<open>score\<close>, localized object annotations carry \<open>name\<close>, \<open>score\<close> and
  \<open>boundingPoly\<close> (here \<open>objectName\<close>, \<open>objectScore\<close>, since a food item has a
  \<open>name\<close> of its own). Either array may be missing from the result.
\<close>

type_synonym boundingPoly = "(real \<times> real) list"

record labelAnnotation =
  description :: string
  score :: real

record objectAnnotation =
  objectName :: string
  objectScore :: real
  boundingPoly :: boundingPoly

record visionResults =
  labelAnnotations :: "labelAnnotation list option"
  localizedObjectAnnotations :: "objectAnnotation list option"

datatype itemSource = label | object

text \<open>
  A food item as the extractor builds it and the aggregator reads it. The aggregator
  guards against a missing \<open>confidence\<close>, so the field is optional; the extractor
  always sets it.
\<close>

record foodItem =
  name :: string
  confidence :: "real option"
  source :: itemSource
  boundingBox :: "boundingPoly option"

text \<open>\<open>String.prototype.toLowerCase\<close> on ASCII text.\<close>

definition toLowerChar :: "char \<Rightarrow> char" where
  "toLowerChar c =
     (case map_of (zip ''ABCDEFGHIJKLMNOPQRSTUVWXYZ'' ''abcdefghijklmnopqrstuvwxyz'') c of
        None \<Rightarrow> c
      | Some l \<Rightarrow> l)"

definition toLowerCase :: "string \<Rightarrow> string" where
  "toLowerCase s = map toLowerChar s"

text \<open>\<open>s.includes(k)\<close>: \<open>k\<close> occurs in \<open>s\<close> as a contiguous substring.\<close>

fun includesStr :: "string \<Rightarrow> string \<Rightarrow> bool" where
  "includesStr [] k = (k = [])"
| "includesStr (c # cs) k = (prefix k (c # cs) \<or> includesStr cs k)"

text \<open>
  The vocabulary of \<open>isFoodRelated\<close>. (The shorter list of the same name declared
  inside \<open>extractFoodItems\<close> is never read.)
\<close>

definition foodKeywords :: "string list" where
  "foodKeywords =
     [''food'', ''dish'', ''meal'', ''cuisine'', ''ingredient'', ''fruit'', ''vegetable'',
      ''meat'', ''fish'', ''chicken'', ''beef'', ''pork'', ''lamb'', ''rice'', ''pasta'',
      ''bread'', ''cake'', ''dessert'', ''soup'', ''salad'', ''sandwich'', ''pizza'',
      ''burger'', ''steak'', ''sushi'', ''curry'', ''noodles'', ''potato'', ''tomato'',
      ''onion'', ''garlic'', ''carrot'', ''broccoli'', ''spinach'', ''lettuce'',
      ''apple'', ''banana'', ''orange'', ''grape'', ''strawberry'', ''blueberry'',
      ''milk'', ''cheese'', ''yogurt'', ''egg'', ''butter'', ''oil'', ''sauce'',
      ''cooking'', ''kitchen'', ''restaurant'', ''dining'', ''plate'', ''bowl'']"

definition isFoodRelated :: "string \<Rightarrow> bool" where
  "isFoodRelated l =
     (let lowerLabel = toLowerCase l
      in list_ex (\<lambda>keyword. includesStr lowerLabel keyword) foodKeywords)"

definition labelItem :: "labelAnnotation \<Rightarrow> foodItem" where
  "labelItem l =
     \<lparr>name = toLowerCase (description l), confidence = Some (score l),
      source = label, boundingBox = None\<rparr>"

definition objectItem :: "objectAnnotation \<Rightarrow> foodItem" where
  "objectItem ob =
     \<lparr>name = toLowerCase (objectName ob), confidence = Some (objectScore ob),
      source = object, boundingBox = Some (boundingPoly ob)\<rparr>"

text \<open>The two \<open>forEach\<close> loops, each pushing onto \<open>foodItems\<close>.\<close>

fun pushLabels :: "foodItem list \<Rightarrow> labelAnnotation list \<Rightarrow> foodItem list" where
  "pushLabels foodItems [] = foodItems"
| "pushLabels foodItems (l # ls) =
     pushLabels
       (if score l > 0.7 \<and> isFoodRelated (description l)
        then foodItems @ [labelItem l] else foodItems) ls"

fun pushObjects :: "foodItem list \<Rightarrow> objectAnnotation list \<Rightarrow> foodItem list" where
  "pushObjects foodItems [] = foodItems"
| "pushObjects foodItems (ob # obs) =
     pushObjects
       (if objectScore ob > 0.7 \<and> isFoodRelated (objectName ob)
        then foodItems @ [objectItem ob] else foodItems) obs"

text \<open>\<open>foodItems\<close> as it stands when both loops are done.\<close>

definition collectFoodItems :: "visionResults \<Rightarrow> foodItem list" where
  "collectFoodItems visionResults =
     (let foodItems = [];
          foodItems = (case labelAnnotations visionResults of
                         None \<Rightarrow> foodItems
                       | Some ls \<Rightarrow> pushLabels foodItems ls);
          foodItems = (case localizedObjectAnnotations visionResults of
                         None \<Rightarrow> foodItems
                       | Some obs \<Rightarrow> pushObjects foodItems obs)
      in foodItems)"

text \<open>\<open>removeDuplicates\<close>: a filter that threads the set \<open>seen\<close>.\<close>

fun removeDuplicatesFrom :: "string set \<Rightarrow> foodItem list \<Rightarrow> foodItem list" where
  "removeDuplicatesFrom seen [] = []"
| "removeDuplicatesFrom seen (item # rest) =
     (let key = name item
      in if key \<in> seen then removeDuplicatesFrom seen rest
         else item # removeDuplicatesFrom (insert key seen) rest)"

definition removeDuplicates :: "foodItem list \<Rightarrow> foodItem list" where
  "removeDuplicates foodItems = removeDuplicatesFrom {} foodItems"

text \<open>
  \<open>Array.prototype.sort\<close> with a comparator is a stable sort: \<open>a\<close> goes before \<open>b\<close>
  when the comparator is negative, and elements that compare as zero keep their order.
  The comparator \<open>b.confidence - a.confidence\<close> is \<open>NaN\<close> when a confidence is
  missing, which \<open>sort\<close> reads as zero.
\<close>

definition byConfidenceDesc :: "foodItem \<Rightarrow> foodItem \<Rightarrow> real" where
  "byConfidenceDesc a b =
     (case (confidence b, confidence a) of
        (Some cb, Some ca) \<Rightarrow> cb - ca
      | _ \<Rightarrow> 0)"

fun insertWith :: "('a \<Rightarrow> 'a \<Rightarrow> real) \<Rightarrow> 'a \<Rightarrow> 'a list \<Rightarrow> 'a list" where
  "insertWith cmp x [] = [x]"
| "insertWith cmp x (y # ys) =
     (if cmp x y \<le> 0 then x # y # ys else y # insertWith cmp x ys)"

definition sortWith :: "('a \<Rightarrow> 'a \<Rightarrow> real) \<Rightarrow> 'a list \<Rightarrow> 'a list" where
  "sortWith cmp xs = foldr (insertWith cmp) xs []"

definition extractFoodItems :: "visionResults \<Rightarrow> foodItem list" where
  "extractFoodItems visionResults =
     (let uniqueFoods = removeDuplicates (collectFoodItems visionResults)
      in take 10 (sortWith byConfidenceDesc uniqueFoods))"

section \<open>Nutrient aggregator: \<open>getNutritionalData\<close>\<close>

text \<open>
  The object literal \<open>{calories: c, protein: p, carbs: cb, fat: f, fiber: fi, sugar: su,
  sodium: so, potassium: po}\<close> of the local table: eight keys, the other seven absent.
\<close>

definition nutrients ::
  "real \<Rightarrow> real \<Rightarrow> real \<Rightarrow> real \<Rightarrow> real \<Rightarrow> real \<Rightarrow> real \<Rightarrow> real \<Rightarrow> nutrition" where
  "nutrients c p cb f fi su so po =
     map_of [(calories, c), (protein, p), (carbs, cb), (fat, f), (fiber, fi),
             (sugar, su), (sodium, so), (potassium, po)]"

definition nutritionDB :: "(string \<times> nutrition) list" where
  "nutritionDB =
     [(''rice'', nutrients 130 2.7 28 0.3 0.4 0.1 1 35),
      (''chicken'', nutrients 165 31 0 3.6 0 0 74 256),
      (''fish'', nutrients 206 22 0 12 0 0 61 384),
      (''vegetables'', nutrients 25 2 5 0.2 2 2 20 200),
      (''bread'', nutrients 79 3.1 14 1.1 1.2 1.2 140 35),
      (''pasta'', nutrients 131 5 25 1.1 1.8 0.8 6 44),
      (''potato'', nutrients 77 2 17 0.1 2.2 0.8 6 421),
      (''tomato'', nutrients 18 0.9 3.9 0.2 1.2 2.6 5 237),
      (''onion'', nutrients 40 1.1 9.3 0.1 1.7 4.7 4 146),
      (''garlic'', nutrients 4 0.2 1 0 0.1 0.1 1 12),
      (''oil'', nutrients 120 0 0 14 0 0 0 0),
      (''salt'', nutrients 0 0 0 0 0 0 581 0),
      (''sugar'', nutrients 16 0 4 0 0 4 0 0),
      (''milk'', nutrients 42 3.4 5 1 0 5 44 150),
      (''cheese'', nutrients 113 7 0.4 9 0 0.1 174 28),
      (''egg'', nutrients 74 6.3 0.4 5 0 0.4 70 67),
      (''meat'', nutrients 250 26 0 15 0 0 72 318),
      (''lentils'', nutrients 116 9 20 0.4 7.9 1.8 2 369)]"

text \<open>
  \<open>getLocalNutritionData\<close>: the first table entry, in the order written, whose key
  is contained in the lowercased food name or contains it; the default vector otherwise.
\<close>

definition getLocalNutritionData :: "string \<Rightarrow> nutrition" where
  "getLocalNutritionData foodName =
     (let lowerFoodName = toLowerCase foodName
      in case find (\<lambda>(key, nutrition).
                      includesStr lowerFoodName key \<or> includesStr key lowerFoodName)
                   nutritionDB of
           Some (key, nutrition) \<Rightarrow> nutrition
         | None \<Rightarrow> nutrients 50 2 8 1 1 1 10 50)"

text \<open>
  \<open>parseEdamamResponse\<close> reads fifteen nutrient codes of \<open>totalNutrients\<close>; a code that
  is missing, or has no quantity, reads as 0 (\<open>nutrients.X?.quantity || 0\<close>).
\<close>

definition edamamCodes :: "(nutrientKey \<times> string) list" where
  "edamamCodes =
     [(calories, ''ENERC_KCAL''), (protein, ''PROCNT''), (carbs, ''CHOCDF''),
      (fat, ''FAT''), (fiber, ''FIBTG''), (sugar, ''SUGAR''), (sodium, ''NA''),
      (potassium, ''K''), (cholesterol, ''CHOLE''), (saturatedFat, ''FASAT''),
      (transFat, ''FATRN''), (vitaminA, ''VITA_RAE''), (vitaminC, ''VITC''),
      (calcium, ''CA''), (iron, ''FE'')]"

definition parseEdamamResponse :: "(string \<rightharpoonup> real) \<Rightarrow> nutrition" where
  "parseEdamamResponse totalNutrients =
     map_of (map (\<lambda>(key, code).
                    (key, case totalNutrients code of None \<Rightarrow> 0 | Some q \<Rightarrow> q))
                 edamamCodes)"

text \<open>
  \<open>getFoodNutrition\<close>. The request to the nutrition service is a parameter: \<open>api
  foodName\<close> is \<open>Some totalNutrients\<close> when a key is configured and the response carries
  \<open>totalNutrients\<close>, and \<open>None\<close> otherwise (no key, no such field, an error or a
  timeout), in which case the local table answers.
\<close>

definition getFoodNutrition :: "(string \<Rightarrow> (string \<rightharpoonup> real) option) \<Rightarrow> string \<Rightarrow> nutrition" where
  "getFoodNutrition api foodName =
     (case api foodName of
        Some totalNutrients \<Rightarrow> parseEdamamResponse totalNutrients
      | None \<Rightarrow> getLocalNutritionData foodName)"

text \<open>
  An element of what \<open>Promise.allSettled\<close> returns; a fulfilled promise carries its
  value, which may be missing.
\<close>

datatype 'a settled = fulfilled 'a | rejected

text \<open>
  The accumulator \<open>combinedNutrition\<close> is the object with its fifteen keys in the order
  written; \<open>Object.keys(...).forEach\<close> visits each of its entries.
\<close>

type_synonym nutritionTotals = "(nutrientKey \<times> real) list"

definition zeroNutrition :: nutritionTotals where
  "zeroNutrition =
     [(calories, 0), (protein, 0), (carbs, 0), (fat, 0), (fiber, 0), (sugar, 0),
      (sodium, 0), (potassium, 0), (cholesterol, 0), (saturatedFat, 0), (transFat, 0),
      (vitaminA, 0), (vitaminC, 0), (calcium, 0), (iron, 0)]"

text \<open>\<open>food.confidence || 1\<close>: a missing confidence and the number 0 are both falsy.\<close>

definition weightOf :: "foodItem \<Rightarrow> real" where
  "weightOf food =
     (case confidence food of
        None \<Rightarrow> 1
      | Some c \<Rightarrow> if c = 0 then 1 else c)"

text \<open>\<open>if (nutrition[key]) combinedNutrition[key] += nutrition[key] * weight\<close>, for each key.\<close>

definition addWeighted :: "nutrition \<Rightarrow> real \<Rightarrow> nutritionTotals \<Rightarrow> nutritionTotals" where
  "addWeighted nutrition weight combinedNutrition =
     map (\<lambda>(key, total).
            (key, case nutrition key of
                    None \<Rightarrow> total
                  | Some x \<Rightarrow> if x = 0 then total else total + x * weight))
         combinedNutrition"

text \<open>\<open>nutritionResults.forEach((result, index) => ...)\<close> with \<open>recognizedFoods[index]\<close>.\<close>

fun combineResults ::
  "nutritionTotals \<Rightarrow> (nutrition option settled \<times> foodItem) list \<Rightarrow> nutritionTotals" where
  "combineResults combinedNutrition [] = combinedNutrition"
| "combineResults combinedNutrition ((result, food) # rest) =
     combineResults
       (case result of
          fulfilled (Some nutrition) \<Rightarrow>
            addWeighted nutrition (weightOf food) combinedNutrition
        | _ \<Rightarrow> combinedNutrition)
       rest"

text \<open>
  \<open>getNutritionalData\<close>. How the promise of \<open>getFoodNutrition(food.name)\<close> settles is
  the parameter \<open>lookup\<close>. Nothing in the \<open>try\<close> block can throw on food items of this
  type, so the \<open>catch\<close> branch (\<open>getFallbackNutrition\<close>, below) is not taken.
\<close>

definition getNutritionalData ::
  "(string \<Rightarrow> nutrition option settled) \<Rightarrow> foodItem list \<Rightarrow> nutritionTotals" where
  "getNutritionalData lookup recognizedFoods =
     (let nutritionResults = map (\<lambda>food. lookup (name food)) recognizedFoods
      in combineResults zeroNutrition (zip nutritionResults recognizedFoods))"

text \<open>\<open>nutrition[key] || 0\<close>: what a per-food vector holds for a key, 0 when absent.\<close>

definition amount :: "nutrition \<Rightarrow> nutrientKey \<Rightarrow> real" where
  "amount nutrition key = (case nutrition key of None \<Rightarrow> 0 | Some x \<Rightarrow> x)"

text \<open>\<open>totalNutrition[key] += (nutrition[key] || 0) * weight\<close>, for each key.\<close>

definition addFallback :: "nutrition \<Rightarrow> real \<Rightarrow> nutritionTotals \<Rightarrow> nutritionTotals" where
  "addFallback nutrition weight totalNutrition =
     map (\<lambda>(key, total). (key, total + amount nutrition key * weight)) totalNutrition"

fun fallbackLoop :: "nutritionTotals \<Rightarrow> foodItem list \<Rightarrow> nutritionTotals" where
  "fallbackLoop totalNutrition [] = totalNutrition"
| "fallbackLoop totalNutrition (food # rest) =
     fallbackLoop
       (addFallback (getLocalNutritionData (name food)) (weightOf food) totalNutrition)
       rest"

definition getFallbackNutrition :: "foodItem list \<Rightarrow> nutritionTotals" where
  "getFallbackNutrition recognizedFoods = fallbackLoop zeroNutrition recognizedFoods"

section \<open>Categorizer: the pre-save hook of the meal model\<close>

datatype category = healthy | moderate | unhealthy | unknown

record analysis =
  healthRisks :: "riskFinding list option"

record meal =
  aiAnalysis :: "analysis option"
  category :: "category option"

definition preSave :: "meal \<Rightarrow> meal" where
  "preSave m =
     (case aiAnalysis m of
        None \<Rightarrow> m
      | Some a \<Rightarrow>
          (case healthRisks a of
             None \<Rightarrow> m
           | Some rs \<Rightarrow>
               (let dangerRisks = filter (\<lambda>risk. severity risk = danger) rs;
                    warningRisks = filter (\<lambda>risk. severity risk = warning) rs
                in if length dangerRisks > 0 then m\<lparr>category := Some unhealthy\<rparr>
                   else if length warningRisks > 0 then m\<lparr>category := Some moderate\<rparr>
                   else if length rs = 0 then m\<lparr>category := Some healthy\<rparr>
                   else m)))"

section \<open>Auxiliary notions for the statements\<close>

text \<open>The two annotation arrays, read as empty when missing.\<close>

definition labelsOf :: "visionResults \<Rightarrow> labelAnnotation list" where
  "labelsOf vr = (case labelAnnotations vr of None \<Rightarrow> [] | Some ls \<Rightarrow> ls)"

definition objectsOf :: "visionResults \<Rightarrow> objectAnnotation list" where
  "objectsOf vr = (case localizedObjectAnnotations vr of None \<Rightarrow> [] | Some obs \<Rightarrow> obs)"

text \<open>The order of the output: both confidences are numbers and the first is no smaller.\<close>

definition confidenceGe :: "foodItem \<Rightarrow> foodItem \<Rightarrow> bool" where
  "confidenceGe a b = (\<exists>ca cb. confidence a = Some ca \<and> confidence b = Some cb \<and> cb \<le> ca)"

text \<open>
  Where the sort places an item of the deduplicated list: \<open>y\<close> outranks \<open>x\<close> when
  its confidence is strictly higher, and the rank of \<open>x\<close> counts the items that outrank
  it together with those of equal confidence that come earlier in the list.
\<close>

definition outranks :: "foodItem \<Rightarrow> foodItem \<Rightarrow> bool" where
  "outranks y x =
     (case (confidence y, confidence x) of
        (Some cy, Some cx) \<Rightarrow> cx < cy
      | _ \<Rightarrow> False)"

definition rankIn :: "foodItem list \<Rightarrow> foodItem \<Rightarrow> nat" where
  "rankIn uniqueFoods x =
     length (filter (\<lambda>y. outranks y x) uniqueFoods)
   + length (filter (\<lambda>y. confidence y = confidence x)
               (takeWhile (\<lambda>y. y \<noteq> x) uniqueFoods))"

text \<open>What one settled lookup adds to a key of the meal-level vector.\<close>

definition contribution :: "nutrition option settled \<Rightarrow> foodItem \<Rightarrow> nutrientKey \<Rightarrow> real" where
  "contribution result food key =
     (case result of
        fulfilled (Some nutrition) \<Rightarrow> amount nutrition key * weightOf food
      | _ \<Rightarrow> 0)"

definition addToAll :: "(nutrientKey \<Rightarrow> real) \<Rightarrow> nutritionTotals \<Rightarrow> nutritionTotals" where
  "addToAll g totals = map (\<lambda>(key, total). (key, total + g key)) totals"

text \<open>Lookups when no nutrition service is configured: every food resolves locally.\<close>

definition offlineLookup :: "string \<Rightarrow> nutrition option settled" where
  "offlineLookup foodName = fulfilled (Some (getFoodNutrition (\<lambda>_. None) foodName))"

subsection \<open>Concrete inputs\<close>

definition exampleVision :: visionResults where
  "exampleVision =
     \<lparr>labelAnnotations = Some
        [\<lparr>description = ''Rice'', score = 0.8\<rparr>,
         \<lparr>description = ''Tableware'', score = 0.99\<rparr>,
         \<lparr>description = ''Fried chicken'', score = 0.95\<rparr>,
         \<lparr>description = ''Tomato'', score = 0.7\<rparr>,
         \<lparr>description = ''Salad'', score = 0.8\<rparr>],
      localizedObjectAnnotations = Some
        [\<lparr>objectName = ''RICE'', objectScore = 0.97, boundingPoly = [(0, 0), (1, 1)]\<rparr>,
         \<lparr>objectName = ''Bowl'', objectScore = 0.9, boundingPoly = []\<rparr>]\<rparr>"

definition elevenLabels :: visionResults where
  "elevenLabels =
     \<lparr>labelAnnotations = Some
        [\<lparr>description = ''Rice'', score = 0.9\<rparr>,
         \<lparr>description = ''Chicken'', score = 0.9\<rparr>,
         \<lparr>description = ''Fish'', score = 0.9\<rparr>,
         \<lparr>description = ''Bread'', score = 0.9\<rparr>,
         \<lparr>description = ''Milk'', score = 0.71\<rparr>,
         \<lparr>description = ''Pasta'', score = 0.9\<rparr>,
         \<lparr>description = ''Potato'', score = 0.9\<rparr>,
         \<lparr>description = ''Tomato'', score = 0.9\<rparr>,
         \<lparr>description = ''Onion'', score = 0.9\<rparr>,
         \<lparr>description = ''Garlic'', score = 0.9\<rparr>,
         \<lparr>description = ''Cheese'', score = 0.9\<rparr>],
      localizedObjectAnnotations = None\<rparr>"

definition riceItem :: foodItem where
  "riceItem = \<lparr>name = ''rice'', confidence = Some 0.8, source = label, boundingBox = None\<rparr>"

definition exampleFoods :: "foodItem list" where
  "exampleFoods =
     [\<lparr>name = ''rice'', confidence = Some 0.9, source = label, boundingBox = None\<rparr>,
      \<lparr>name = ''chicken'', confidence = Some 0.85, source = label, boundingBox = None\<rparr>]"


definition exampleProfile :: userProfile where
  "exampleProfile =
     \<lparr>healthConditions = Some
        [\<lparr>condition = ''diabetes'', details = ''type 2''\<rparr>,
         \<lparr>condition = ''bp'', details = []\<rparr>]\<rparr>"

definition fullProfile :: userProfile where
  "fullProfile =
     \<lparr>healthConditions = Some
        [\<lparr>condition = ''kidney'', details = []\<rparr>,
         \<lparr>condition = ''cholesterol'', details = []\<rparr>,
         \<lparr>condition = ''bp'', details = []\<rparr>,
         \<lparr>condition = ''diabetes'', details = []\<rparr>]\<rparr>"

definition atThresholds :: nutrition where
  "atThresholds =
     map_of [(carbs, 60), (sugar, 15), (sodium, 500), (potassium, 400), (fat, 20)]"

definition aboveThresholds :: nutrition where
  "aboveThresholds =
     map_of [(carbs, 60.01), (sugar, 15.01), (sodium, 500.01), (potassium, 400.01),
             (fat, 20.01)]"

definition exampleNutrition :: nutrition where
  "exampleNutrition =
     map_of [(calories, 700), (carbs, 70), (sugar, 20), (sodium, 600), (potassium, 300),
             (fat, 10)]"

definition lowRisk :: riskFinding where
  "lowRisk = \<lparr>type = high_calories, severity = low, message = [], value = 650, threshold = 600\<rparr>"

section \<open>Risk evaluator: properties\<close>

lemma pushIfAbove_simps:
  "n key = None \<Longrightarrow> pushIfAbove n key limit mk = []"
  "n key = Some v \<Longrightarrow> pushIfAbove n key limit mk = (if v > limit then [mk v] else [])"
  by (simp_all add: pushIfAbove_def)

lemma pushIfAbove_below:
  "\<forall>v. n key = Some v \<longrightarrow> v \<le> limit \<Longrightarrow> pushIfAbove n key limit mk = []"
  by (auto simp: pushIfAbove_def split: option.splits)

lemma finding_fields:
  "type (carbsFinding v) = high_carbs" "severity (carbsFinding v) = warning"
  "value (carbsFinding v) = v" "threshold (carbsFinding v) = 60"
  "type (sugarFinding v) = high_sugar" "severity (sugarFinding v) = danger"
  "value (sugarFinding v) = v" "threshold (sugarFinding v) = 15"
  "type (sodiumFinding v) = high_sodium" "severity (sodiumFinding v) = danger"
  "value (sodiumFinding v) = v" "threshold (sodiumFinding v) = 500"
  "type (potassiumFinding v) = high_potassium" "severity (potassiumFinding v) = danger"
  "value (potassiumFinding v) = v" "threshold (potassiumFinding v) = 400"
  "type (fatFinding v) = high_fat" "severity (fatFinding v) = warning"
  "value (fatFinding v) = v" "threshold (fatFinding v) = 20"
  by (simp_all add: carbsFinding_def sugarFinding_def sodiumFinding_def
        potassiumFinding_def fatFinding_def)

lemma risks_Some:
  "risks (analyzeHealthRisks n (Some p)) =
     conditionRisks n (case healthConditions p of None \<Rightarrow> [] | Some cs \<Rightarrow> cs)"
  by (simp add: analyzeHealthRisks_def)

lemma warnings_Some: "warnings (analyzeHealthRisks n (Some p)) = generalWarnings n"
  by (simp add: analyzeHealthRisks_def)

lemma analyze_None: "analyzeHealthRisks n None = \<lparr>risks = [], warnings = []\<rparr>"
  by (simp add: analyzeHealthRisks_def)

lemma type_filter_push:
  "(\<And>v. type (mk v) = t) \<Longrightarrow>
     filter (\<lambda>f. type f = t) (pushIfAbove n key limit mk) = pushIfAbove n key limit mk"
  "(\<And>v. type (mk v) \<noteq> t) \<Longrightarrow> filter (\<lambda>f. type f = t) (pushIfAbove n key limit mk) = []"
  by (simp_all add: pushIfAbove_def split: option.splits)

lemma sodium_filter:
  "filter (\<lambda>f. type f = high_sodium) (conditionRisks n cs) =
     (if hasCondition cs ''bp'' then pushIfAbove n sodium 500 sodiumFinding else [])"
  by (simp add: conditionRisks_def type_filter_push finding_fields)

lemma exampleProfile_conditions:
  "hasCondition [\<lparr>condition = ''diabetes'', details = ''type 2''\<rparr>,
                 \<lparr>condition = ''bp'', details = []\<rparr>] ''diabetes''"
  "hasCondition [\<lparr>condition = ''diabetes'', details = ''type 2''\<rparr>,
                 \<lparr>condition = ''bp'', details = []\<rparr>] ''bp''"
  by (simp_all add: hasCondition_def)

text \<open>
  Claim C1, as stated, fails: when no profile is passed at all, \<open>analyzeHealthRisks\<close>
  returns at its first guard, before the calorie check, and a meal of 700 calories gets
  no warning.
\<close>

theorem C1_absent_profile_no_warning:
  "map_of [(calories, 700::real)] calories = Some 700 \<and> (700::real) > 600
   \<and> warnings (analyzeHealthRisks (map_of [(calories, 700)]) None) = []"
  by (simp add: analyzeHealthRisks_def)

text \<open>
  Claim C1, amended: for every nutrient vector with calories above 600 and every profile
  that is present, whatever its condition data, the warnings list is exactly the
  high-calorie warning; if the profile's condition list is missing or empty, no finding is
  produced. With no profile at all, the evaluator returns no findings and no warnings.
\<close>

theorem C1_calorie_warning_for_present_profile:
  assumes "n calories = Some c" and "c > 600"
  shows "warnings (analyzeHealthRisks n (Some p)) = [caloriesWarning c]
       \<and> ((healthConditions p = None \<or> healthConditions p = Some []) \<longrightarrow>
            risks (analyzeHealthRisks n (Some p)) = [])
       \<and> analyzeHealthRisks n None = \<lparr>risks = [], warnings = []\<rparr>"
  using assms
  by (auto simp: warnings_Some risks_Some analyze_None generalWarnings_def
        conditionRisks_def hasCondition_def)

theorem C1_calorie_warning_witness:
  "exampleNutrition calories = Some 700 \<and> (700::real) > 600
   \<and> warnings (analyzeHealthRisks exampleNutrition (Some \<lparr>healthConditions = Some []\<rparr>))
       = [caloriesWarning 700]
   \<and> risks (analyzeHealthRisks exampleNutrition (Some \<lparr>healthConditions = Some []\<rparr>)) = []
   \<and> warnings (analyzeHealthRisks exampleNutrition (Some exampleProfile))
       = [caloriesWarning 700]"
proof -
  have c: "exampleNutrition calories = Some 700" by (simp add: exampleNutrition_def)
  have g: "(700::real) > 600" by simp
  show ?thesis
    using c g
      C1_calorie_warning_for_present_profile
        [where n = exampleNutrition and c = 700 and p = "\<lparr>healthConditions = Some []\<rparr>"]
      C1_calorie_warning_for_present_profile
        [where n = exampleNutrition and c = 700 and p = exampleProfile]
    by simp
qed

text \<open>
  Claim C3: for a user holding both diabetes and bp, and a nutrient vector with carbs 70,
  sugar 20 and sodium 600 whose potassium is at most 400 and fat at most 20, the findings
  are exactly three, in this order: high\_carbs (warning), high\_sugar (danger),
  high\_sodium (danger).
\<close>

theorem C3_rule_independence:
  assumes "healthConditions p = Some cs"
    and "hasCondition cs ''diabetes''" and "hasCondition cs ''bp''"
    and "n carbs = Some 70" and "n sugar = Some 20" and "n sodium = Some 600"
    and "\<forall>v. n potassium = Some v \<longrightarrow> v \<le> 400"
    and "\<forall>v. n fat = Some v \<longrightarrow> v \<le> 20"
  shows "risks (analyzeHealthRisks n (Some p)) =
           [carbsFinding 70, sugarFinding 20, sodiumFinding 600]
       \<and> map (\<lambda>f. (type f, severity f)) (risks (analyzeHealthRisks n (Some p))) =
           [(high_carbs, warning), (high_sugar, danger), (high_sodium, danger)]"
proof -
  have "pushIfAbove n potassium 400 potassiumFinding = []"
    using assms(7) by (rule pushIfAbove_below)
  moreover have "pushIfAbove n fat 20 fatFinding = []"
    using assms(8) by (rule pushIfAbove_below)
  ultimately show ?thesis using assms(1-6)
    by (simp add: risks_Some conditionRisks_def pushIfAbove_simps finding_fields)
qed

theorem C3_rule_independence_witness:
  "risks (analyzeHealthRisks exampleNutrition (Some exampleProfile)) =
     [carbsFinding 70, sugarFinding 20, sodiumFinding 600]
   \<and> map (\<lambda>f. (type f, severity f))
         (risks (analyzeHealthRisks exampleNutrition (Some exampleProfile))) =
     [(high_carbs, warning), (high_sugar, danger), (high_sodium, danger)]"
proof -
  have p: "healthConditions exampleProfile =
             Some [\<lparr>condition = ''diabetes'', details = ''type 2''\<rparr>,
                   \<lparr>condition = ''bp'', details = []\<rparr>]"
    by (simp add: exampleProfile_def)
  have n: "exampleNutrition carbs = Some 70" "exampleNutrition sugar = Some 20"
    "exampleNutrition sodium = Some 600"
    by (simp_all add: exampleNutrition_def)
  have o: "\<forall>v. exampleNutrition potassium = Some v \<longrightarrow> v \<le> 400"
    "\<forall>v. exampleNutrition fat = Some v \<longrightarrow> v \<le> 20"
    by (simp_all add: exampleNutrition_def)
  show ?thesis
    using p exampleProfile_conditions n o
      C3_rule_independence [where p = exampleProfile and n = exampleNutrition
        and cs = "[\<lparr>condition = ''diabetes'', details = ''type 2''\<rparr>,
                   \<lparr>condition = ''bp'', details = []\<rparr>]"]
    by (simp add: finding_fields)
qed

lemma rule_filter:
  "filter (\<lambda>f. type f = high_carbs) (conditionRisks n cs) =
     (if hasCondition cs ''diabetes'' then pushIfAbove n carbs 60 carbsFinding else [])"
  "filter (\<lambda>f. type f = high_sugar) (conditionRisks n cs) =
     (if hasCondition cs ''diabetes'' then pushIfAbove n sugar 15 sugarFinding else [])"
  "filter (\<lambda>f. type f = high_potassium) (conditionRisks n cs) =
     (if hasCondition cs ''kidney'' then pushIfAbove n potassium 400 potassiumFinding else [])"
  "filter (\<lambda>f. type f = high_fat) (conditionRisks n cs) =
     (if hasCondition cs ''cholesterol'' then pushIfAbove n fat 20 fatFinding else [])"
  by (simp_all add: conditionRisks_def type_filter_push finding_fields)

lemma conditionRisks_by_type:
  "conditionRisks n cs =
      filter (\<lambda>f. type f = high_carbs) (conditionRisks n cs)
    @ filter (\<lambda>f. type f = high_sugar) (conditionRisks n cs)
    @ filter (\<lambda>f. type f = high_sodium) (conditionRisks n cs)
    @ filter (\<lambda>f. type f = high_potassium) (conditionRisks n cs)
    @ filter (\<lambda>f. type f = high_fat) (conditionRisks n cs)"
  unfolding rule_filter sodium_filter by (simp add: conditionRisks_def)

lemma fullProfile_conditions:
  "healthConditions fullProfile =
     Some [\<lparr>condition = ''kidney'', details = []\<rparr>,
           \<lparr>condition = ''cholesterol'', details = []\<rparr>,
           \<lparr>condition = ''bp'', details = []\<rparr>,
           \<lparr>condition = ''diabetes'', details = []\<rparr>]"
  "hasCondition [\<lparr>condition = ''kidney'', details = []\<rparr>,
           \<lparr>condition = ''cholesterol'', details = []\<rparr>,
           \<lparr>condition = ''bp'', details = []\<rparr>,
           \<lparr>condition = ''diabetes'', details = []\<rparr>] ''diabetes''"
  "hasCondition [\<lparr>condition = ''kidney'', details = []\<rparr>,
           \<lparr>condition = ''cholesterol'', details = []\<rparr>,
           \<lparr>condition = ''bp'', details = []\<rparr>,
           \<lparr>condition = ''diabetes'', details = []\<rparr>] ''bp''"
  "hasCondition [\<lparr>condition = ''kidney'', details = []\<rparr>,
           \<lparr>condition = ''cholesterol'', details = []\<rparr>,
           \<lparr>condition = ''bp'', details = []\<rparr>,
           \<lparr>condition = ''diabetes'', details = []\<rparr>] ''kidney''"
  "hasCondition [\<lparr>condition = ''kidney'', details = []\<rparr>,
           \<lparr>condition = ''cholesterol'', details = []\<rparr>,
           \<lparr>condition = ''bp'', details = []\<rparr>,
           \<lparr>condition = ''diabetes'', details = []\<rparr>] ''cholesterol''"
  by (simp_all add: fullProfile_def hasCondition_def)

text \<open>
  Claim C4: each risk rule fires on strictly exceeding its threshold. For a user whose
  condition list is \<open>cs\<close>, the findings of each type are one finding when the rule's
  condition is in \<open>cs\<close> and the nutrient is strictly above the threshold (carbs 60 and
  sugar 15 for diabetes, sodium 500 for bp, potassium 400 for kidney, fat 20 for
  cholesterol), and none otherwise; there are no other findings. So for a user with the bp
  condition sodium exactly 500 gives no high\_sodium finding and sodium 500.01 gives one
  high\_sodium danger finding.
\<close>

theorem C4_rules_fire_strictly_above:
  assumes "healthConditions p = Some cs"
  shows "filter (\<lambda>f. type f = high_carbs) (risks (analyzeHealthRisks n (Some p))) =
           (case n carbs of
              None \<Rightarrow> []
            | Some v \<Rightarrow> if hasCondition cs ''diabetes'' \<and> v > 60 then [carbsFinding v] else [])
       \<and> filter (\<lambda>f. type f = high_sugar) (risks (analyzeHealthRisks n (Some p))) =
           (case n sugar of
              None \<Rightarrow> []
            | Some v \<Rightarrow> if hasCondition cs ''diabetes'' \<and> v > 15 then [sugarFinding v] else [])
       \<and> filter (\<lambda>f. type f = high_sodium) (risks (analyzeHealthRisks n (Some p))) =
           (case n sodium of
              None \<Rightarrow> []
            | Some v \<Rightarrow> if hasCondition cs ''bp'' \<and> v > 500 then [sodiumFinding v] else [])
       \<and> filter (\<lambda>f. type f = high_potassium) (risks (analyzeHealthRisks n (Some p))) =
           (case n potassium of
              None \<Rightarrow> []
            | Some v \<Rightarrow>
                if hasCondition cs ''kidney'' \<and> v > 400 then [potassiumFinding v] else [])
       \<and> filter (\<lambda>f. type f = high_fat) (risks (analyzeHealthRisks n (Some p))) =
           (case n fat of
              None \<Rightarrow> []
            | Some v \<Rightarrow> if hasCondition cs ''cholesterol'' \<and> v > 20 then [fatFinding v] else [])
       \<and> risks (analyzeHealthRisks n (Some p)) =
            filter (\<lambda>f. type f = high_carbs) (risks (analyzeHealthRisks n (Some p)))
          @ filter (\<lambda>f. type f = high_sugar) (risks (analyzeHealthRisks n (Some p)))
          @ filter (\<lambda>f. type f = high_sodium) (risks (analyzeHealthRisks n (Some p)))
          @ filter (\<lambda>f. type f = high_potassium) (risks (analyzeHealthRisks n (Some p)))
          @ filter (\<lambda>f. type f = high_fat) (risks (analyzeHealthRisks n (Some p)))
       \<and> (hasCondition cs ''bp'' \<and> n sodium = Some 500 \<longrightarrow>
            filter (\<lambda>f. type f = high_sodium) (risks (analyzeHealthRisks n (Some p))) = [])
       \<and> (hasCondition cs ''bp'' \<and> n sodium = Some 500.01 \<longrightarrow>
            filter (\<lambda>f. type f = high_sodium) (risks (analyzeHealthRisks n (Some p))) =
              [sodiumFinding 500.01])
       \<and> severity (sodiumFinding v) = danger"
proof -
  have r: "risks (analyzeHealthRisks n (Some p)) = conditionRisks n cs"
    using assms by (simp add: risks_Some)
  have c: "filter (\<lambda>f. type f = high_carbs) (conditionRisks n cs) =
           (case n carbs of
              None \<Rightarrow> []
            | Some v \<Rightarrow> if hasCondition cs ''diabetes'' \<and> v > 60 then [carbsFinding v] else [])"
    by (simp add: rule_filter pushIfAbove_def split: option.splits)
  have su: "filter (\<lambda>f. type f = high_sugar) (conditionRisks n cs) =
           (case n sugar of
              None \<Rightarrow> []
            | Some v \<Rightarrow> if hasCondition cs ''diabetes'' \<and> v > 15 then [sugarFinding v] else [])"
    by (simp add: rule_filter pushIfAbove_def split: option.splits)
  have so: "filter (\<lambda>f. type f = high_sodium) (conditionRisks n cs) =
           (case n sodium of
              None \<Rightarrow> []
            | Some v \<Rightarrow> if hasCondition cs ''bp'' \<and> v > 500 then [sodiumFinding v] else [])"
    by (simp add: sodium_filter pushIfAbove_def split: option.splits)
  have po: "filter (\<lambda>f. type f = high_potassium) (conditionRisks n cs) =
           (case n potassium of
              None \<Rightarrow> []
            | Some v \<Rightarrow>
                if hasCondition cs ''kidney'' \<and> v > 400 then [potassiumFinding v] else [])"
    by (simp add: rule_filter pushIfAbove_def split: option.splits)
  have fa: "filter (\<lambda>f. type f = high_fat) (conditionRisks n cs) =
           (case n fat of
              None \<Rightarrow> []
            | Some v \<Rightarrow> if hasCondition cs ''cholesterol'' \<and> v > 20 then [fatFinding v] else [])"
    by (simp add: rule_filter pushIfAbove_def split: option.splits)
  have a: "filter (\<lambda>f. type f = high_sodium) (conditionRisks n cs) = []"
    if "hasCondition cs ''bp'' \<and> n sodium = Some 500"
    unfolding so using that by simp
  have b: "filter (\<lambda>f. type f = high_sodium) (conditionRisks n cs) = [sodiumFinding 500.01]"
    if "hasCondition cs ''bp'' \<and> n sodium = Some 500.01"
    unfolding so using that by simp
  have s: "severity (sodiumFinding v) = danger" by (simp add: finding_fields)
  show ?thesis
    unfolding r using c su so po fa conditionRisks_by_type [of n cs] a b s by blast
qed

theorem C4_rules_fire_witness:
  "risks (analyzeHealthRisks atThresholds (Some fullProfile)) = []
   \<and> risks (analyzeHealthRisks aboveThresholds (Some fullProfile)) =
       [carbsFinding 60.01, sugarFinding 15.01, sodiumFinding 500.01,
        potassiumFinding 400.01, fatFinding 20.01]
   \<and> filter (\<lambda>f. type f = high_sodium)
       (risks (analyzeHealthRisks (map_of [(sodium, 500)]) (Some exampleProfile))) = []
   \<and> filter (\<lambda>f. type f = high_sodium)
       (risks (analyzeHealthRisks (map_of [(sodium, 500.01)]) (Some exampleProfile))) =
     [sodiumFinding 500.01]
   \<and> severity (sodiumFinding 500.01) = danger"
proof -
  have p: "healthConditions exampleProfile =
             Some [\<lparr>condition = ''diabetes'', details = ''type 2''\<rparr>,
                   \<lparr>condition = ''bp'', details = []\<rparr>]"
    by (simp add: exampleProfile_def)
  have at: "atThresholds carbs = Some 60" "atThresholds sugar = Some 15"
    "atThresholds sodium = Some 500" "atThresholds potassium = Some 400"
    "atThresholds fat = Some 20"
    by (simp_all add: atThresholds_def)
  have ab: "aboveThresholds carbs = Some 60.01" "aboveThresholds sugar = Some 15.01"
    "aboveThresholds sodium = Some 500.01" "aboveThresholds potassium = Some 400.01"
    "aboveThresholds fat = Some 20.01"
    by (simp_all add: aboveThresholds_def)
  note t1 = C4_rules_fire_strictly_above
    [OF fullProfile_conditions(1), where n = atThresholds and v = "500.01"]
  note t2 = C4_rules_fire_strictly_above
    [OF fullProfile_conditions(1), where n = aboveThresholds and v = "500.01"]
  note t3 = C4_rules_fire_strictly_above
    [OF p, where n = "map_of [(sodium, 500)]" and v = "500.01"]
  note t4 = C4_rules_fire_strictly_above
    [OF p, where n = "map_of [(sodium, 500.01)]" and v = "500.01"]
  have 1: "risks (analyzeHealthRisks atThresholds (Some fullProfile)) = []"
    by (rule trans [OF t1 [THEN conjunct2, THEN conjunct2, THEN conjunct2, THEN conjunct2,
                           THEN conjunct2, THEN conjunct1]])
       (simp add: t1 [THEN conjunct1] t1 [THEN conjunct2, THEN conjunct1]
          t1 [THEN conjunct2, THEN conjunct2, THEN conjunct1]
          t1 [THEN conjunct2, THEN conjunct2, THEN conjunct2, THEN conjunct1]
          t1 [THEN conjunct2, THEN conjunct2, THEN conjunct2, THEN conjunct2, THEN conjunct1]
          at fullProfile_conditions)
  have 2: "risks (analyzeHealthRisks aboveThresholds (Some fullProfile)) =
       [carbsFinding 60.01, sugarFinding 15.01, sodiumFinding 500.01,
        potassiumFinding 400.01, fatFinding 20.01]"
    by (rule trans [OF t2 [THEN conjunct2, THEN conjunct2, THEN conjunct2, THEN conjunct2,
                           THEN conjunct2, THEN conjunct1]])
       (simp add: t2 [THEN conjunct1] t2 [THEN conjunct2, THEN conjunct1]
          t2 [THEN conjunct2, THEN conjunct2, THEN conjunct1]
          t2 [THEN conjunct2, THEN conjunct2, THEN conjunct2, THEN conjunct1]
          t2 [THEN conjunct2, THEN conjunct2, THEN conjunct2, THEN conjunct2, THEN conjunct1]
          ab fullProfile_conditions)
  have 3: "filter (\<lambda>f. type f = high_sodium)
       (risks (analyzeHealthRisks (map_of [(sodium, 500)]) (Some exampleProfile))) = []"
    using t3 [THEN conjunct2, THEN conjunct2, THEN conjunct1] exampleProfile_conditions(2)
    by simp
  have 4: "filter (\<lambda>f. type f = high_sodium)
       (risks (analyzeHealthRisks (map_of [(sodium, 500.01)]) (Some exampleProfile))) =
     [sodiumFinding 500.01]"
    using t4 [THEN conjunct2, THEN conjunct2, THEN conjunct1] exampleProfile_conditions(2)
    by simp
  have 5: "severity (sodiumFinding 500.01) = danger" by (simp add: finding_fields)
  from 1 2 3 4 5 show ?thesis by blast
qed

text \<open>
  Claim C9: every finding the risk evaluator produces has a value above its threshold;
  its severity is warning exactly when its type is high\_carbs or high\_fat, and danger
  exactly when its type is high\_sugar, high\_sodium or high\_potassium.
\<close>

theorem C9_finding_invariant:
  assumes "f \<in> set (risks (analyzeHealthRisks n profile))"
  shows "value f > threshold f
       \<and> (severity f = warning \<longleftrightarrow> type f \<in> {high_carbs, high_fat})
       \<and> (severity f = danger \<longleftrightarrow> type f \<in> {high_sugar, high_sodium, high_potassium})"
proof (cases profile)
  case None
  with assms show ?thesis by (simp add: analyze_None)
next
  case (Some p)
  with assms have
    "f \<in> set (conditionRisks n (case healthConditions p of None \<Rightarrow> [] | Some cs \<Rightarrow> cs))"
    by (simp add: risks_Some)
  then show ?thesis
    by (auto simp: conditionRisks_def pushIfAbove_def finding_fields
             split: if_splits option.splits)
qed

theorem C9_finding_invariant_witness:
  "sugarFinding 20 \<in> set (risks (analyzeHealthRisks exampleNutrition (Some exampleProfile)))
   \<and> value (sugarFinding 20) > threshold (sugarFinding 20)
   \<and> severity (sugarFinding 20) = danger \<and> type (sugarFinding 20) = high_sugar"
proof -
  have m: "sugarFinding 20
             \<in> set (risks (analyzeHealthRisks exampleNutrition (Some exampleProfile)))"
    by (simp add: risks_Some exampleProfile_def exampleNutrition_def conditionRisks_def
          hasCondition_def pushIfAbove_def)
  show ?thesis
    using m C9_finding_invariant [OF m] by (simp add: finding_fields)
qed

section \<open>Food extractor: properties\<close>

subsection \<open>Strings\<close>

lemma toLowerChar_idem: "toLowerChar (toLowerChar c) = toLowerChar c"
  by (simp add: toLowerChar_def)

lemma toLowerCase_idem: "toLowerCase (toLowerCase s) = toLowerCase s"
  by (simp add: toLowerCase_def toLowerChar_idem)

lemma includesStr_sublist: "includesStr s k = sublist k s"
  by (induction s) (auto simp: sublist_Cons_right)

lemma isFoodRelated_iff:
  "isFoodRelated d \<longleftrightarrow> (\<exists>k \<in> set foodKeywords. sublist k (toLowerCase d))"
  by (simp add: isFoodRelated_def list_ex_iff includesStr_sublist)

subsection \<open>The two loops as a filter\<close>

lemma pushLabels_eq:
  "pushLabels acc ls =
     acc @ map labelItem (filter (\<lambda>l. score l > 0.7 \<and> isFoodRelated (description l)) ls)"
  by (induction ls arbitrary: acc) simp_all

lemma pushObjects_eq:
  "pushObjects acc obs =
     acc @ map objectItem
             (filter (\<lambda>ob. objectScore ob > 0.7 \<and> isFoodRelated (objectName ob)) obs)"
  by (induction obs arbitrary: acc) simp_all

lemma collectFoodItems_eq:
  "collectFoodItems vr =
     map labelItem
       (filter (\<lambda>l. score l > 0.7 \<and> isFoodRelated (description l)) (labelsOf vr))
   @ map objectItem
       (filter (\<lambda>ob. objectScore ob > 0.7 \<and> isFoodRelated (objectName ob)) (objectsOf vr))"
  by (simp add: collectFoodItems_def labelsOf_def objectsOf_def pushLabels_eq pushObjects_eq
           split: option.splits)

lemma item_fields:
  "name (labelItem l) = toLowerCase (description l)"
  "confidence (labelItem l) = Some (score l)"
  "source (labelItem l) = label"
  "name (objectItem ob) = toLowerCase (objectName ob)"
  "confidence (objectItem ob) = Some (objectScore ob)"
  "source (objectItem ob) = object"
  by (simp_all add: labelItem_def objectItem_def)

lemma collect_names:
  "nm \<in> name ` set (collectFoodItems vr) \<longleftrightarrow>
      (\<exists>l \<in> set (labelsOf vr).
          score l > 0.7 \<and> isFoodRelated (description l) \<and> toLowerCase (description l) = nm)
    \<or> (\<exists>ob \<in> set (objectsOf vr).
          objectScore ob > 0.7 \<and> isFoodRelated (objectName ob)
          \<and> toLowerCase (objectName ob) = nm)"
  unfolding collectFoodItems_eq set_append image_Un Un_iff set_map image_image item_fields
  by (rule arg_cong2 [where f = "(\<or>)"]) auto

lemma collect_confidence: "i \<in> set (collectFoodItems vr) \<Longrightarrow> confidence i \<noteq> None"
  by (auto simp: collectFoodItems_eq item_fields)

lemma collect_lower: "i \<in> set (collectFoodItems vr) \<Longrightarrow> toLowerCase (name i) = name i"
  by (auto simp: collectFoodItems_eq item_fields toLowerCase_idem)

subsection \<open>Deduplication\<close>

lemma removeDuplicatesFrom_names:
  "name ` set (removeDuplicatesFrom seen xs) = name ` set xs - seen"
  by (induction xs arbitrary: seen) (auto simp: Let_def)

lemma removeDuplicatesFrom_subset: "set (removeDuplicatesFrom seen xs) \<subseteq> set xs"
  by (induction xs arbitrary: seen) (auto simp: Let_def)

lemma removeDuplicates_names: "name ` set (removeDuplicates xs) = name ` set xs"
  by (simp add: removeDuplicates_def removeDuplicatesFrom_names)

lemma removeDuplicatesFrom_distinct: "distinct (map name (removeDuplicatesFrom seen xs))"
proof (induction xs arbitrary: seen)
  case Nil
  then show ?case by simp
next
  case (Cons x xs)
  have "name x \<notin> name ` set (removeDuplicatesFrom (insert (name x) seen) xs)"
    by (simp add: removeDuplicatesFrom_names)
  with Cons show ?case by (simp add: Let_def)
qed

text \<open>An item that survives is the first of the input list to carry its name.\<close>

lemma removeDuplicatesFrom_first:
  "i \<in> set (removeDuplicatesFrom seen xs) \<Longrightarrow> find (\<lambda>j. name j = name i) xs = Some i"
proof (induction xs arbitrary: seen)
  case Nil
  then show ?case by simp
next
  case (Cons x xs)
  show ?case
  proof (cases "name x \<in> seen")
    case True
    with Cons.prems have mem: "i \<in> set (removeDuplicatesFrom seen xs)"
      by (simp add: Let_def)
    then have "name i \<in> name ` set (removeDuplicatesFrom seen xs)" by blast
    then have "name i \<notin> seen" by (simp add: removeDuplicatesFrom_names)
    with True have "name x \<noteq> name i" by auto
    with Cons.IH [OF mem] show ?thesis by simp
  next
    case False
    with Cons.prems
    have "i = x \<or> i \<in> set (removeDuplicatesFrom (insert (name x) seen) xs)"
      by (simp add: Let_def)
    then show ?thesis
    proof
      assume "i = x"
      then show ?thesis by simp
    next
      assume mem: "i \<in> set (removeDuplicatesFrom (insert (name x) seen) xs)"
      then have "name i \<in> name ` set (removeDuplicatesFrom (insert (name x) seen) xs)"
        by blast
      then have "name x \<noteq> name i" by (auto simp: removeDuplicatesFrom_names)
      with Cons.IH [OF mem] show ?thesis by simp
    qed
  qed
qed

lemma find_append:
  "find P (xs @ ys) = (case find P xs of None \<Rightarrow> find P ys | Some x \<Rightarrow> Some x)"
  by (induction xs) auto

lemma find_Some_mem: "find P xs = Some x \<Longrightarrow> x \<in> set xs"
  by (induction xs) (auto split: if_splits)

lemma label_wins:
  assumes "find (\<lambda>j. name j = nm) (collectFoodItems vr) = Some i"
    and "j \<in> set (collectFoodItems vr)" and "name j = nm" and "source j = label"
  shows "source i = label"
proof -
  let ?L = "map labelItem
              (filter (\<lambda>l. score l > 0.7 \<and> isFoodRelated (description l)) (labelsOf vr))"
  let ?O = "map objectItem
              (filter (\<lambda>ob. objectScore ob > 0.7 \<and> isFoodRelated (objectName ob))
                 (objectsOf vr))"
  have c: "collectFoodItems vr = ?L @ ?O" by (rule collectFoodItems_eq)
  have "j \<notin> set ?O" using assms(4) by (auto simp: item_fields)
  with assms(2) c have "j \<in> set ?L" by auto
  with assms(3) obtain x where x: "find (\<lambda>j. name j = nm) ?L = Some x"
    by (cases "find (\<lambda>j. name j = nm) ?L") (auto simp: find_None_iff)
  then have "x \<in> set ?L" by (rule find_Some_mem)
  then have "source x = label" by (auto simp: item_fields)
  moreover from assms(1) c x have "i = x" by (simp add: find_append)
  ultimately show ?thesis by simp
qed

subsection \<open>Sorting\<close>

lemma set_insertWith: "set (insertWith cmp x ys) = insert x (set ys)"
  by (induction ys) auto

lemma set_sortWith: "set (sortWith cmp xs) = set xs"
  unfolding sortWith_def by (induction xs) (simp_all add: set_insertWith)

lemma distinct_map_insertWith:
  "distinct (map f (insertWith cmp x ys)) = (f x \<notin> f ` set ys \<and> distinct (map f ys))"
  by (induction ys) (auto simp: set_insertWith)

lemma distinct_map_sortWith: "distinct (map f (sortWith cmp xs)) = distinct (map f xs)"
  unfolding sortWith_def
proof (induction xs)
  case Nil
  then show ?case by simp
next
  case (Cons x xs)
  have "set (foldr (insertWith cmp) xs []) = set xs"
    using set_sortWith [of cmp xs] by (simp add: sortWith_def)
  with Cons show ?case by (simp add: distinct_map_insertWith)
qed

lemma sorted_insertWith:
  assumes "sorted_wrt confidenceGe ys" and "confidence x \<noteq> None"
    and "\<forall>y \<in> set ys. confidence y \<noteq> None"
  shows "sorted_wrt confidenceGe (insertWith byConfidenceDesc x ys)"
  using assms
proof (induction ys)
  case Nil
  then show ?case by simp
next
  case (Cons y ys)
  from Cons.prems obtain cx cy
    where cx: "confidence x = Some cx" and cy: "confidence y = Some cy"
    by auto
  show ?case
  proof (cases "byConfidenceDesc x y \<le> 0")
    case True
    with cx cy have le: "cy \<le> cx" by (simp add: byConfidenceDesc_def)
    have "\<forall>z \<in> set ys. confidenceGe x z"
    proof
      fix z assume "z \<in> set ys"
      with Cons.prems(1) have "confidenceGe y z" by simp
      with cy le cx show "confidenceGe x z" by (auto simp: confidenceGe_def)
    qed
    with True Cons.prems(1) cx cy le show ?thesis by (simp add: confidenceGe_def)
  next
    case False
    with cx cy have lt: "cx < cy" by (simp add: byConfidenceDesc_def)
    have "sorted_wrt confidenceGe (insertWith byConfidenceDesc x ys)"
      using Cons by simp
    moreover have "\<forall>z \<in> set (insertWith byConfidenceDesc x ys). confidenceGe y z"
      using Cons.prems(1) cx cy lt by (auto simp: set_insertWith confidenceGe_def)
    ultimately show ?thesis using False by simp
  qed
qed

lemma sorted_sortWith:
  assumes "\<forall>x \<in> set xs. confidence x \<noteq> None"
  shows "sorted_wrt confidenceGe (sortWith byConfidenceDesc xs)"
  using assms unfolding sortWith_def
proof (induction xs)
  case Nil
  then show ?case by simp
next
  case (Cons x xs)
  have "set (foldr (insertWith byConfidenceDesc) xs []) = set xs"
    using set_sortWith [of byConfidenceDesc xs] by (simp add: sortWith_def)
  with Cons show ?case by (simp add: sorted_insertWith)
qed

text \<open>
  The sort is stable: the items of any one confidence keep the order they had. So the
  result is the one \<open>Array.prototype.sort\<close> must give.
\<close>

lemma filter_insertWith:
  assumes "confidence x \<noteq> None" and "\<forall>y \<in> set ys. confidence y \<noteq> None"
  shows "filter (\<lambda>i. confidence i = Some c) (insertWith byConfidenceDesc x ys) =
           filter (\<lambda>i. confidence i = Some c) (x # ys)"
  using assms
proof (induction ys)
  case Nil
  then show ?case by simp
next
  case (Cons y ys)
  from Cons.prems obtain cx cy
    where cx: "confidence x = Some cx" and cy: "confidence y = Some cy"
    by auto
  show ?case
  proof (cases "byConfidenceDesc x y \<le> 0")
    case True
    then show ?thesis by simp
  next
    case False
    with cx cy have "cx < cy" by (simp add: byConfidenceDesc_def)
    with cx cy have "\<not> (confidence x = Some c \<and> confidence y = Some c)" by auto
    with False Cons show ?thesis by auto
  qed
qed

lemma sortWith_stable:
  assumes "\<forall>x \<in> set xs. confidence x \<noteq> None"
  shows "filter (\<lambda>i. confidence i = Some c) (sortWith byConfidenceDesc xs) =
           filter (\<lambda>i. confidence i = Some c) xs"
  using assms unfolding sortWith_def
proof (induction xs)
  case Nil
  then show ?case by simp
next
  case (Cons x xs)
  have "set (foldr (insertWith byConfidenceDesc) xs []) = set xs"
    using set_sortWith [of byConfidenceDesc xs] by (simp add: sortWith_def)
  with Cons show ?case by (simp add: filter_insertWith)
qed

subsection \<open>The cut to ten\<close>

text \<open>
  An item of the deduplicated list survives \<open>slice(0, 10)\<close> exactly when its position
  in the sorted list is below 10, and that position is its rank.
\<close>

lemma in_take_iff:
  "x \<in> set (take n s) \<longleftrightarrow> x \<in> set s \<and> length (takeWhile (\<lambda>y. y \<noteq> x) s) < n"
proof (induction s arbitrary: n)
  case Nil
  then show ?case by simp
next
  case (Cons a s)
  show ?case
  proof (cases n)
    case 0
    then show ?thesis by simp
  next
    case (Suc m)
    with Cons [of m] show ?thesis by auto
  qed
qed

lemma length_filter_insertWith:
  "length (filter P (insertWith cmp x ys)) = length (filter P (x # ys))"
  by (induction ys) auto

lemma length_filter_sortWith:
  "length (filter P (sortWith cmp xs)) = length (filter P xs)"
  unfolding sortWith_def by (induction xs) (simp_all add: length_filter_insertWith)

lemma position_inserted:
  assumes "sorted_wrt confidenceGe s" and "confidence a \<noteq> None"
    and "\<forall>y \<in> set s. confidence y \<noteq> None" and "a \<notin> set s"
  shows "length (takeWhile (\<lambda>y. y \<noteq> a) (insertWith byConfidenceDesc a s)) =
           length (filter (\<lambda>y. outranks y a) s)"
  using assms
proof (induction s)
  case Nil
  then show ?case by simp
next
  case (Cons y ys)
  from Cons.prems obtain ca cy
    where ca: "confidence a = Some ca" and cy: "confidence y = Some cy"
    by auto
  show ?case
  proof (cases "byConfidenceDesc a y \<le> 0")
    case True
    with ca cy have le: "cy \<le> ca" by (simp add: byConfidenceDesc_def)
    then have "\<not> outranks y a" using ca cy by (simp add: outranks_def)
    moreover have "\<not> outranks z a" if "z \<in> set ys" for z
    proof -
      from Cons.prems(1) that have "confidenceGe y z" by simp
      with cy le ca show ?thesis by (auto simp: confidenceGe_def outranks_def)
    qed
    ultimately have "filter (\<lambda>y. outranks y a) (y # ys) = []"
      by (simp add: filter_empty_conv)
    with True show ?thesis by simp
  next
    case False
    with ca cy have "ca < cy" by (simp add: byConfidenceDesc_def)
    then have "outranks y a" using ca cy by (simp add: outranks_def)
    moreover from Cons.prems have "y \<noteq> a" by auto
    moreover have "length (takeWhile (\<lambda>y. y \<noteq> a) (insertWith byConfidenceDesc a ys)) =
                     length (filter (\<lambda>y. outranks y a) ys)"
      using Cons by simp
    ultimately show ?thesis using False by simp
  qed
qed

lemma position_shifted:
  assumes "sorted_wrt confidenceGe s" and "confidence a \<noteq> None"
    and "\<forall>y \<in> set s. confidence y \<noteq> None" and "a \<notin> set s" and "x \<in> set s"
  shows "length (takeWhile (\<lambda>y. y \<noteq> x) (insertWith byConfidenceDesc a s)) =
           length (takeWhile (\<lambda>y. y \<noteq> x) s) + (if outranks x a then 0 else 1)"
  using assms
proof (induction s)
  case Nil
  then show ?case by simp
next
  case (Cons y ys)
  from Cons.prems obtain ca cy
    where ca: "confidence a = Some ca" and cy: "confidence y = Some cy"
    by auto
  from Cons.prems have ax: "a \<noteq> x" by auto
  show ?case
  proof (cases "byConfidenceDesc a y \<le> 0")
    case True
    with ca cy have le: "cy \<le> ca" by (simp add: byConfidenceDesc_def)
    have "\<not> outranks x a"
    proof (cases "x = y")
      case True
      with le ca cy show ?thesis by (simp add: outranks_def)
    next
      case False
      with Cons.prems have "x \<in> set ys" by simp
      with Cons.prems(1) have "confidenceGe y x" by simp
      with cy le ca show ?thesis by (auto simp: confidenceGe_def outranks_def)
    qed
    with True ax show ?thesis by simp
  next
    case False
    with ca cy have lt: "ca < cy" by (simp add: byConfidenceDesc_def)
    show ?thesis
    proof (cases "x = y")
      case True
      with lt ca cy have "outranks x a" by (simp add: outranks_def)
      with True False show ?thesis by simp
    next
      case ne: False
      with Cons.prems have "x \<in> set ys" by simp
      with Cons have "length (takeWhile (\<lambda>y. y \<noteq> x) (insertWith byConfidenceDesc a ys)) =
           length (takeWhile (\<lambda>y. y \<noteq> x) ys) + (if outranks x a then 0 else 1)"
        by simp
      with False ne show ?thesis by simp
    qed
  qed
qed

lemma position_sortWith:
  assumes "distinct u" and "\<forall>y \<in> set u. confidence y \<noteq> None" and "x \<in> set u"
  shows "length (takeWhile (\<lambda>y. y \<noteq> x) (sortWith byConfidenceDesc u)) = rankIn u x"
  using assms
proof (induction u)
  case Nil
  then show ?case by simp
next
  case (Cons a u)
  let ?s = "sortWith byConfidenceDesc u"
  have step: "sortWith byConfidenceDesc (a # u) = insertWith byConfidenceDesc a ?s"
    by (simp add: sortWith_def)
  from Cons.prems have some: "\<forall>y \<in> set u. confidence y \<noteq> None" and a: "confidence a \<noteq> None"
    and notin: "a \<notin> set u" and d: "distinct u"
    by simp_all
  have sorted: "sorted_wrt confidenceGe ?s" using some by (rule sorted_sortWith)
  have some': "\<forall>y \<in> set ?s. confidence y \<noteq> None" using some by (simp add: set_sortWith)
  have notin': "a \<notin> set ?s" using notin by (simp add: set_sortWith)
  from a obtain ca where ca: "confidence a = Some ca" by auto
  show ?case
  proof (cases "x = a")
    case True
    have "\<not> outranks a a" using ca by (simp add: outranks_def)
    then have "rankIn (a # u) a = length (filter (\<lambda>y. outranks y a) u)"
      by (simp add: rankIn_def)
    moreover have "length (takeWhile (\<lambda>y. y \<noteq> a) (insertWith byConfidenceDesc a ?s)) =
                     length (filter (\<lambda>y. outranks y a) ?s)"
      using sorted a some' notin' by (rule position_inserted)
    ultimately show ?thesis
      unfolding step True by (simp add: length_filter_sortWith)
  next
    case False
    with Cons.prems have xu: "x \<in> set u" by simp
    then have xs: "x \<in> set ?s" by (simp add: set_sortWith)
    from some xu obtain cx where cx: "confidence x = Some cx" by auto
    have ih: "length (takeWhile (\<lambda>y. y \<noteq> x) ?s) = rankIn u x"
      using Cons.IH d some xu by simp
    have "length (takeWhile (\<lambda>y. y \<noteq> x) (insertWith byConfidenceDesc a ?s)) =
            length (takeWhile (\<lambda>y. y \<noteq> x) ?s) + (if outranks x a then 0 else 1)"
      using sorted a some' notin' xs by (rule position_shifted)
    moreover have "rankIn (a # u) x = rankIn u x + (if outranks x a then 0 else 1)"
      using False ca cx by (auto simp: rankIn_def outranks_def)
    ultimately show ?thesis unfolding step using ih by simp
  qed
qed

lemma removeDuplicatesFrom_keeps_first:
  "find (\<lambda>j. name j = name i) xs = Some i \<Longrightarrow> name i \<notin> seen \<Longrightarrow>
     i \<in> set (removeDuplicatesFrom seen xs)"
proof (induction xs arbitrary: seen)
  case Nil
  then show ?case by simp
next
  case (Cons x xs)
  show ?case
  proof (cases "name x = name i")
    case True
    with Cons.prems show ?thesis by (simp add: Let_def)
  next
    case False
    with Cons.prems have "find (\<lambda>j. name j = name i) xs = Some i" by simp
    moreover from False Cons.prems have "name i \<notin> insert (name x) seen" by auto
    ultimately show ?thesis using Cons.IH Cons.prems(2) by (simp add: Let_def)
  qed
qed

lemma removeDuplicates_iff:
  "i \<in> set (removeDuplicates xs) \<longleftrightarrow> find (\<lambda>j. name j = name i) xs = Some i"
  unfolding removeDuplicates_def
  using removeDuplicatesFrom_first [of i "{}" xs] removeDuplicatesFrom_keeps_first [of i xs "{}"]
  by auto

lemma removeDuplicates_distinct: "distinct (removeDuplicates xs)"
  using removeDuplicatesFrom_distinct [of "{}" xs]
  by (simp add: removeDuplicates_def distinct_map)

lemma collect_items:
  "i \<in> set (collectFoodItems vr) \<longleftrightarrow>
      (\<exists>l \<in> set (labelsOf vr).
          score l > 0.7 \<and> isFoodRelated (description l) \<and> i = labelItem l)
    \<or> (\<exists>ob \<in> set (objectsOf vr).
          objectScore ob > 0.7 \<and> isFoodRelated (objectName ob) \<and> i = objectItem ob)"
  unfolding collectFoodItems_eq set_append Un_iff set_map
  by (rule arg_cong2 [where f = "(\<or>)"]) auto

lemma extract_iff:
  "i \<in> set (extractFoodItems vr) \<longleftrightarrow>
     i \<in> set (removeDuplicates (collectFoodItems vr))
     \<and> rankIn (removeDuplicates (collectFoodItems vr)) i < 10"
proof -
  let ?u = "removeDuplicates (collectFoodItems vr)"
  have some: "\<forall>y \<in> set ?u. confidence y \<noteq> None"
    using removeDuplicatesFrom_subset [of "{}" "collectFoodItems vr"] collect_confidence
    by (auto simp: removeDuplicates_def)
  have "i \<in> set (extractFoodItems vr) \<longleftrightarrow>
          i \<in> set ?u \<and> length (takeWhile (\<lambda>y. y \<noteq> i) (sortWith byConfidenceDesc ?u)) < 10"
    by (simp add: extractFoodItems_def in_take_iff set_sortWith)
  also have "\<dots> \<longleftrightarrow> i \<in> set ?u \<and> rankIn ?u i < 10"
    using position_sortWith [OF removeDuplicates_distinct some] by auto
  finally show ?thesis .
qed

lemma length_sortWith: "length (sortWith cmp xs) = length xs"
  using length_filter_sortWith [of "\<lambda>_. True" cmp xs] by simp

subsection \<open>A run of the extractor\<close>

lemma example_lower:
  "toLowerCase ''Rice'' = ''rice''" "toLowerCase ''Tableware'' = ''tableware''"
  "toLowerCase ''Fried chicken'' = ''fried chicken''" "toLowerCase ''Tomato'' = ''tomato''"
  "toLowerCase ''Salad'' = ''salad''" "toLowerCase ''RICE'' = ''rice''"
  "toLowerCase ''Bowl'' = ''bowl''"
  by (simp_all add: toLowerCase_def toLowerChar_def)

lemma example_food:
  "isFoodRelated ''Rice''" "\<not> isFoodRelated ''Tableware''"
  "isFoodRelated ''Fried chicken''" "isFoodRelated ''Tomato''"
  "isFoodRelated ''Salad''" "isFoodRelated ''RICE''" "isFoodRelated ''Bowl''"
  by (simp_all add: isFoodRelated_def example_lower foodKeywords_def)

lemma exampleVision_collected:
  "map (\<lambda>i. (name i, confidence i, source i)) (collectFoodItems exampleVision) =
     [(''rice'', Some 0.8, label), (''fried chicken'', Some 0.95, label),
      (''salad'', Some 0.8, label), (''rice'', Some 0.97, object),
      (''bowl'', Some 0.9, object)]"
  by (simp add: exampleVision_def collectFoodItems_def labelItem_def objectItem_def
        example_food example_lower)

lemma exampleVision_extracted:
  "extractFoodItems exampleVision =
     [\<lparr>name = ''fried chicken'', confidence = Some 0.95, source = label, boundingBox = None\<rparr>,
      \<lparr>name = ''bowl'', confidence = Some 0.9, source = object, boundingBox = Some []\<rparr>,
      riceItem,
      \<lparr>name = ''salad'', confidence = Some 0.8, source = label, boundingBox = None\<rparr>]"
  by (simp add: exampleVision_def extractFoodItems_def collectFoodItems_def
        removeDuplicates_def sortWith_def byConfidenceDesc_def labelItem_def objectItem_def
        riceItem_def example_food example_lower)

lemma eleven_lower:
  "toLowerCase ''Chicken'' = ''chicken''" "toLowerCase ''Fish'' = ''fish''"
  "toLowerCase ''Bread'' = ''bread''" "toLowerCase ''Milk'' = ''milk''"
  "toLowerCase ''Pasta'' = ''pasta''" "toLowerCase ''Potato'' = ''potato''"
  "toLowerCase ''Onion'' = ''onion''" "toLowerCase ''Garlic'' = ''garlic''"
  "toLowerCase ''Cheese'' = ''cheese''"
  by (simp_all add: toLowerCase_def toLowerChar_def)

lemma eleven_food:
  "isFoodRelated ''Chicken''" "isFoodRelated ''Fish''" "isFoodRelated ''Bread''"
  "isFoodRelated ''Milk''" "isFoodRelated ''Pasta''" "isFoodRelated ''Potato''"
  "isFoodRelated ''Onion''" "isFoodRelated ''Garlic''" "isFoodRelated ''Cheese''"
  by (simp_all add: isFoodRelated_def eleven_lower foodKeywords_def)

lemma elevenLabels_collected:
  "collectFoodItems elevenLabels =
     [\<lparr>name = ''rice'', confidence = Some 0.9, source = label, boundingBox = None\<rparr>,
      \<lparr>name = ''chicken'', confidence = Some 0.9, source = label, boundingBox = None\<rparr>,
      \<lparr>name = ''fish'', confidence = Some 0.9, source = label, boundingBox = None\<rparr>,
      \<lparr>name = ''bread'', confidence = Some 0.9, source = label, boundingBox = None\<rparr>,
      \<lparr>name = ''milk'', confidence = Some 0.71, source = label, boundingBox = None\<rparr>,
      \<lparr>name = ''pasta'', confidence = Some 0.9, source = label, boundingBox = None\<rparr>,
      \<lparr>name = ''potato'', confidence = Some 0.9, source = label, boundingBox = None\<rparr>,
      \<lparr>name = ''tomato'', confidence = Some 0.9, source = label, boundingBox = None\<rparr>,
      \<lparr>name = ''onion'', confidence = Some 0.9, source = label, boundingBox = None\<rparr>,
      \<lparr>name = ''garlic'', confidence = Some 0.9, source = label, boundingBox = None\<rparr>,
      \<lparr>name = ''cheese'', confidence = Some 0.9, source = label, boundingBox = None\<rparr>]"
  by (simp add: elevenLabels_def collectFoodItems_def labelItem_def
        example_food example_lower eleven_food eleven_lower)

lemma elevenLabels_unique:
  "removeDuplicates (collectFoodItems elevenLabels) = collectFoodItems elevenLabels"
  unfolding elevenLabels_collected by (simp add: removeDuplicates_def)

lemma elevenLabels_extracted:
  "extractFoodItems elevenLabels =
     [\<lparr>name = ''rice'', confidence = Some 0.9, source = label, boundingBox = None\<rparr>,
      \<lparr>name = ''chicken'', confidence = Some 0.9, source = label, boundingBox = None\<rparr>,
      \<lparr>name = ''fish'', confidence = Some 0.9, source = label, boundingBox = None\<rparr>,
      \<lparr>name = ''bread'', confidence = Some 0.9, source = label, boundingBox = None\<rparr>,
      \<lparr>name = ''pasta'', confidence = Some 0.9, source = label, boundingBox = None\<rparr>,
      \<lparr>name = ''potato'', confidence = Some 0.9, source = label, boundingBox = None\<rparr>,
      \<lparr>name = ''tomato'', confidence = Some 0.9, source = label, boundingBox = None\<rparr>,
      \<lparr>name = ''onion'', confidence = Some 0.9, source = label, boundingBox = None\<rparr>,
      \<lparr>name = ''garlic'', confidence = Some 0.9, source = label, boundingBox = None\<rparr>,
      \<lparr>name = ''cheese'', confidence = Some 0.9, source = label, boundingBox = None\<rparr>]"
  unfolding extractFoodItems_def elevenLabels_unique Let_def
  unfolding elevenLabels_collected
  by (simp add: sortWith_def byConfidenceDesc_def)

lemma elevenLabels_milk_rank:
  "rankIn (removeDuplicates (collectFoodItems elevenLabels))
     (labelItem \<lparr>description = ''Milk'', score = 0.71\<rparr>) = 10"
  unfolding elevenLabels_unique
  unfolding elevenLabels_collected
  by (simp add: labelItem_def rankIn_def outranks_def eleven_lower)

lemma exampleVision_rice_rank:
  "rankIn (removeDuplicates (collectFoodItems exampleVision)) riceItem = 2"
  by (simp add: exampleVision_def collectFoodItems_def removeDuplicates_def labelItem_def
        objectItem_def riceItem_def rankIn_def outranks_def example_food example_lower)

subsection \<open>The claims\<close>

text \<open>
  Claim C2, as stated, fails twice. A detection named Rice, which is food related, with
  confidence exactly 0.7 is dropped, because the test is \<open>score > 0.7\<close>. And of eleven
  labels that pass both tests, Milk at 0.71 is dropped by the cut to ten items.
\<close>

theorem C2_boundary_and_cut_dropped:
  "(0.7::real) \<ge> 0.7 \<and> isFoodRelated ''Rice''
   \<and> extractFoodItems \<lparr>labelAnnotations = Some [\<lparr>description = ''Rice'', score = 0.7\<rparr>],
                         localizedObjectAnnotations = None\<rparr> = []
   \<and> (0.71::real) \<ge> 0.7 \<and> isFoodRelated ''Milk''
   \<and> \<lparr>description = ''Milk'', score = 0.71\<rparr> \<in> set (labelsOf elevenLabels)
   \<and> map name (extractFoodItems elevenLabels) =
       [''rice'', ''chicken'', ''fish'', ''bread'', ''pasta'', ''potato'', ''tomato'',
        ''onion'', ''garlic'', ''cheese'']"
proof -
  have a: "extractFoodItems \<lparr>labelAnnotations = Some [\<lparr>description = ''Rice'', score = 0.7\<rparr>],
                         localizedObjectAnnotations = None\<rparr> = []"
    by (simp add: extractFoodItems_def collectFoodItems_def removeDuplicates_def sortWith_def
          example_food)
  have b: "\<lparr>description = ''Milk'', score = 0.71\<rparr> \<in> set (labelsOf elevenLabels)"
    by (simp add: labelsOf_def elevenLabels_def)
  have c: "map name (extractFoodItems elevenLabels) =
       [''rice'', ''chicken'', ''fish'', ''bread'', ''pasta'', ''potato'', ''tomato'',
        ''onion'', ''garlic'', ''cheese'']"
    by (simp add: elevenLabels_extracted)
  from a b c example_food(1) eleven_food(4) show ?thesis by simp
qed

text \<open>
  Claim C2, amended: an item is in the extractor's output if and only if it stems from a
  label or object whose confidence is strictly greater than 0.7 and whose lowercased name
  contains a term of the vocabulary as a substring, it is the first collected item with
  its name, and fewer than ten of the deduplicated items rank before it (a strictly higher
  confidence, or an equal one and an earlier place). When at most ten names pass the two
  tests, a name is in the output exactly when some label or object with that lowercased
  name passes both; a single detection is returned exactly when it passes both, so one with
  confidence exactly 0.7 is dropped.
\<close>

theorem C2_kept_iff_qualifies_first_and_ranked:
  "(i \<in> set (extractFoodItems vr) \<longleftrightarrow>
      ((\<exists>l \<in> set (labelsOf vr).
           score l > 0.7 \<and> isFoodRelated (description l) \<and> i = labelItem l)
     \<or> (\<exists>ob \<in> set (objectsOf vr).
           objectScore ob > 0.7 \<and> isFoodRelated (objectName ob) \<and> i = objectItem ob))
      \<and> find (\<lambda>j. name j = name i) (collectFoodItems vr) = Some i
      \<and> rankIn (removeDuplicates (collectFoodItems vr)) i < 10)
 \<and> (length (removeDuplicates (collectFoodItems vr)) \<le> 10 \<longrightarrow>
      ((\<exists>i \<in> set (extractFoodItems vr). name i = nm) \<longleftrightarrow>
         (\<exists>l \<in> set (labelsOf vr).
             score l > 0.7 \<and> isFoodRelated (description l) \<and> toLowerCase (description l) = nm)
       \<or> (\<exists>ob \<in> set (objectsOf vr).
             objectScore ob > 0.7 \<and> isFoodRelated (objectName ob)
             \<and> toLowerCase (objectName ob) = nm)))
 \<and> ((\<exists>i \<in> set (removeDuplicates (collectFoodItems vr)). name i = nm) \<longleftrightarrow>
      (\<exists>l \<in> set (labelsOf vr).
          score l > 0.7 \<and> isFoodRelated (description l) \<and> toLowerCase (description l) = nm)
    \<or> (\<exists>ob \<in> set (objectsOf vr).
          objectScore ob > 0.7 \<and> isFoodRelated (objectName ob)
          \<and> toLowerCase (objectName ob) = nm))
 \<and> (isFoodRelated d \<longleftrightarrow> (\<exists>k \<in> set foodKeywords. sublist k (toLowerCase d)))
 \<and> (extractFoodItems \<lparr>labelAnnotations = Some [l], localizedObjectAnnotations = None\<rparr> =
      (if score l > 0.7 \<and> isFoodRelated (description l) then [labelItem l] else []))"
proof -
  let ?u = "removeDuplicates (collectFoodItems vr)"
  let ?q = "(\<exists>l \<in> set (labelsOf vr).
          score l > 0.7 \<and> isFoodRelated (description l) \<and> toLowerCase (description l) = nm)
    \<or> (\<exists>ob \<in> set (objectsOf vr).
          objectScore ob > 0.7 \<and> isFoodRelated (objectName ob)
          \<and> toLowerCase (objectName ob) = nm)"
  have e1: "i \<in> set (extractFoodItems vr) \<longleftrightarrow>
              find (\<lambda>j. name j = name i) (collectFoodItems vr) = Some i \<and> rankIn ?u i < 10"
    by (simp only: extract_iff removeDuplicates_iff)
  have e2: "(\<exists>l \<in> set (labelsOf vr).
           score l > 0.7 \<and> isFoodRelated (description l) \<and> i = labelItem l)
     \<or> (\<exists>ob \<in> set (objectsOf vr).
           objectScore ob > 0.7 \<and> isFoodRelated (objectName ob) \<and> i = objectItem ob)"
    if "find (\<lambda>j. name j = name i) (collectFoodItems vr) = Some i"
  proof -
    from that have "i \<in> set (collectFoodItems vr)" by (rule find_Some_mem)
    then show ?thesis by (simp only: collect_items)
  qed
  have taut: "(A \<longleftrightarrow> F \<and> R) \<Longrightarrow> (F \<Longrightarrow> Q) \<Longrightarrow> (A \<longleftrightarrow> Q \<and> F \<and> R)" for A F R Q
    by blast
  note e = taut [OF e1 e2]
  have "(\<exists>i \<in> set ?u. name i = nm) \<longleftrightarrow> nm \<in> name ` set ?u" by auto
  also have "\<dots> \<longleftrightarrow> nm \<in> name ` set (collectFoodItems vr)"
    by (simp only: removeDuplicates_names)
  also have "\<dots> \<longleftrightarrow> ?q" by (rule collect_names)
  finally have a: "(\<exists>i \<in> set ?u. name i = nm) \<longleftrightarrow> ?q" .
  have n: "length ?u \<le> 10 \<longrightarrow> ((\<exists>i \<in> set (extractFoodItems vr). name i = nm) \<longleftrightarrow> ?q)"
  proof
    assume "length ?u \<le> 10"
    then have "take 10 (sortWith byConfidenceDesc ?u) = sortWith byConfidenceDesc ?u"
      by (simp add: length_sortWith)
    then have "set (extractFoodItems vr) = set ?u"
      by (simp add: extractFoodItems_def set_sortWith)
    then show "(\<exists>i \<in> set (extractFoodItems vr). name i = nm) \<longleftrightarrow> ?q"
      by (simp only: a)
  qed
  have c: "extractFoodItems \<lparr>labelAnnotations = Some [l], localizedObjectAnnotations = None\<rparr> =
      (if score l > 0.7 \<and> isFoodRelated (description l) then [labelItem l] else [])"
    by (simp add: extractFoodItems_def collectFoodItems_def removeDuplicates_def sortWith_def)
  note f = isFoodRelated_iff [of d]
  from e n a f c show ?thesis by (intro conjI)
qed

theorem C2_kept_iff_witness:
  "riceItem \<in> set (extractFoodItems exampleVision)
   \<and> labelItem \<lparr>description = ''Milk'', score = 0.71\<rparr> \<notin> set (extractFoodItems elevenLabels)
   \<and> (\<exists>i \<in> set (extractFoodItems exampleVision). name i = ''rice'')
   \<and> \<not> (\<exists>i \<in> set (extractFoodItems exampleVision). name i = ''tomato'')
   \<and> (\<exists>i \<in> set (removeDuplicates (collectFoodItems exampleVision)). name i = ''rice'')
   \<and> \<not> (\<exists>i \<in> set (removeDuplicates (collectFoodItems exampleVision)). name i = ''tomato'')
   \<and> extractFoodItems
       \<lparr>labelAnnotations = Some [\<lparr>description = ''Salad'', score = 0.71\<rparr>],
        localizedObjectAnnotations = None\<rparr>
     = [labelItem \<lparr>description = ''Salad'', score = 0.71\<rparr>]"
proof -
  note rice = C2_kept_iff_qualifies_first_and_ranked
    [where vr = exampleVision and i = riceItem, THEN conjunct1]
  note milk = C2_kept_iff_qualifies_first_and_ranked
    [where vr = elevenLabels and i = "labelItem \<lparr>description = ''Milk'', score = 0.71\<rparr>",
     THEN conjunct1]
  note few_rice = C2_kept_iff_qualifies_first_and_ranked
    [where vr = exampleVision and nm = "''rice''", THEN conjunct2, THEN conjunct1]
  note few_tomato = C2_kept_iff_qualifies_first_and_ranked
    [where vr = exampleVision and nm = "''tomato''", THEN conjunct2, THEN conjunct1]
  note uniq_rice = C2_kept_iff_qualifies_first_and_ranked
    [where vr = exampleVision and nm = "''rice''",
     THEN conjunct2, THEN conjunct2, THEN conjunct1]
  note uniq_tomato = C2_kept_iff_qualifies_first_and_ranked
    [where vr = exampleVision and nm = "''tomato''",
     THEN conjunct2, THEN conjunct2, THEN conjunct1]
  note single = C2_kept_iff_qualifies_first_and_ranked
    [where l = "\<lparr>description = ''Salad'', score = 0.71\<rparr>",
     THEN conjunct2, THEN conjunct2, THEN conjunct2, THEN conjunct2]
  have q: "\<exists>l \<in> set (labelsOf exampleVision).
             score l > 0.7 \<and> isFoodRelated (description l) \<and> riceItem = labelItem l"
    by (simp add: labelsOf_def exampleVision_def riceItem_def labelItem_def
          example_food example_lower)
  have f: "find (\<lambda>j. name j = name riceItem) (collectFoodItems exampleVision) = Some riceItem"
    by (simp add: exampleVision_def collectFoodItems_def labelItem_def objectItem_def
          riceItem_def example_food example_lower)
  have 1: "riceItem \<in> set (extractFoodItems exampleVision)"
    using rice q f by (simp add: exampleVision_rice_rank)
  have 2: "labelItem \<lparr>description = ''Milk'', score = 0.71\<rparr>
             \<notin> set (extractFoodItems elevenLabels)"
  proof -
    have "\<not> rankIn (removeDuplicates (collectFoodItems elevenLabels))
              (labelItem \<lparr>description = ''Milk'', score = 0.71\<rparr>) < 10"
      unfolding elevenLabels_milk_rank by simp
    with milk show ?thesis by blast
  qed
  have len: "length (removeDuplicates (collectFoodItems exampleVision)) \<le> 10"
    by (simp add: exampleVision_def collectFoodItems_def removeDuplicates_def
          example_food example_lower labelItem_def objectItem_def)
  have 3: "\<exists>i \<in> set (extractFoodItems exampleVision). name i = ''rice''"
    using few_rice len
    by (simp add: labelsOf_def objectsOf_def exampleVision_def example_food example_lower)
  have 4: "\<not> (\<exists>i \<in> set (extractFoodItems exampleVision). name i = ''tomato'')"
    using few_tomato len
    by (simp add: labelsOf_def objectsOf_def exampleVision_def example_food example_lower)
  have 5: "\<exists>i \<in> set (removeDuplicates (collectFoodItems exampleVision)). name i = ''rice''"
    using uniq_rice
    by (simp add: labelsOf_def objectsOf_def exampleVision_def example_food example_lower)
  have 6: "\<not> (\<exists>i \<in> set (removeDuplicates (collectFoodItems exampleVision)).
                 name i = ''tomato'')"
    using uniq_tomato
    by (simp add: labelsOf_def objectsOf_def exampleVision_def example_food example_lower)
  have 7: "extractFoodItems
       \<lparr>labelAnnotations = Some [\<lparr>description = ''Salad'', score = 0.71\<rparr>],
        localizedObjectAnnotations = None\<rparr>
     = [labelItem \<lparr>description = ''Salad'', score = 0.71\<rparr>]"
    using single by (simp add: example_food)
  from 1 2 3 4 5 6 7 show ?thesis by (intro conjI)
qed

text \<open>
  Claim C5: for every detection set, the output of the extractor holds at most one item
  per name, names being lowercased; each item is the first of the collected items with its
  name, and since labels are collected before objects, a label-sourced item wins over an
  object-sourced one of the same name; the output is sorted by confidence, descending, and
  has at most 10 items.
\<close>

theorem C5_extractor_output:
  "distinct (map name (extractFoodItems vr))
 \<and> (\<forall>i \<in> set (extractFoodItems vr). toLowerCase (name i) = name i)
 \<and> (\<forall>i \<in> set (extractFoodItems vr).
       find (\<lambda>j. name j = name i) (collectFoodItems vr) = Some i)
 \<and> (\<forall>i \<in> set (extractFoodItems vr). \<forall>j \<in> set (collectFoodItems vr).
       name j = name i \<and> source j = label \<longrightarrow> source i = label)
 \<and> sorted_wrt confidenceGe (extractFoodItems vr)
 \<and> length (extractFoodItems vr) \<le> 10"
proof -
  let ?u = "removeDuplicates (collectFoodItems vr)"
  let ?s = "sortWith byConfidenceDesc ?u"
  have out: "extractFoodItems vr = take 10 ?s" by (simp add: extractFoodItems_def)
  have sub: "set (extractFoodItems vr) \<subseteq> set ?u"
    unfolding out using set_take_subset [of 10 ?s] by (simp add: set_sortWith)
  have usub: "set ?u \<subseteq> set (collectFoodItems vr)"
    by (simp add: removeDuplicates_def removeDuplicatesFrom_subset)
  have "distinct (map name ?s)"
    by (simp add: distinct_map_sortWith removeDuplicates_def removeDuplicatesFrom_distinct)
  then have "distinct (take 10 (map name ?s))" by (rule distinct_take)
  then have d: "distinct (map name (extractFoodItems vr))"
    unfolding out by (simp add: take_map)
  have l: "\<forall>i \<in> set (extractFoodItems vr). toLowerCase (name i) = name i"
    using sub usub collect_lower by blast
  have f: "\<forall>i \<in> set (extractFoodItems vr).
             find (\<lambda>j. name j = name i) (collectFoodItems vr) = Some i"
    using sub removeDuplicatesFrom_first [of _ "{}" "collectFoodItems vr"]
    by (auto simp: removeDuplicates_def)
  have w: "\<forall>i \<in> set (extractFoodItems vr). \<forall>j \<in> set (collectFoodItems vr).
             name j = name i \<and> source j = label \<longrightarrow> source i = label"
    using f label_wins by blast
  have "\<forall>x \<in> set ?u. confidence x \<noteq> None" using usub collect_confidence by blast
  then have "sorted_wrt confidenceGe ?s" by (rule sorted_sortWith)
  then have s: "sorted_wrt confidenceGe (extractFoodItems vr)"
    unfolding out by (rule sorted_wrt_take)
  have n: "length (extractFoodItems vr) \<le> 10" unfolding out by simp
  from d l f w s n show ?thesis by blast
qed

theorem C5_extractor_output_witness:
  "map (\<lambda>i. (name i, confidence i, source i)) (collectFoodItems exampleVision) =
     [(''rice'', Some 0.8, label), (''fried chicken'', Some 0.95, label),
      (''salad'', Some 0.8, label), (''rice'', Some 0.97, object),
      (''bowl'', Some 0.9, object)]
   \<and> map (\<lambda>i. (name i, confidence i, source i)) (extractFoodItems exampleVision) =
     [(''fried chicken'', Some 0.95, label), (''bowl'', Some 0.9, object),
      (''rice'', Some 0.8, label), (''salad'', Some 0.8, label)]
   \<and> distinct (map name (extractFoodItems exampleVision))
   \<and> find (\<lambda>j. name j = ''rice'') (collectFoodItems exampleVision) = Some riceItem
   \<and> source riceItem = label
   \<and> sorted_wrt confidenceGe (extractFoodItems exampleVision)
   \<and> length (extractFoodItems exampleVision) \<le> 10"
proof -
  note t = C5_extractor_output [of exampleVision]
  have r: "riceItem \<in> set (extractFoodItems exampleVision)"
    by (simp add: exampleVision_extracted)
  from t r have "find (\<lambda>j. name j = name riceItem) (collectFoodItems exampleVision)
                   = Some riceItem" by blast
  then have f: "find (\<lambda>j. name j = ''rice'') (collectFoodItems exampleVision) = Some riceItem"
    by (simp add: riceItem_def)
  have e: "map (\<lambda>i. (name i, confidence i, source i)) (extractFoodItems exampleVision) =
     [(''fried chicken'', Some 0.95, label), (''bowl'', Some 0.9, object),
      (''rice'', Some 0.8, label), (''salad'', Some 0.8, label)]"
    by (simp add: exampleVision_extracted riceItem_def)
  have s: "source riceItem = label" by (simp add: riceItem_def)
  from t f e s exampleVision_collected show ?thesis by blast
qed

section \<open>Nutrient aggregator: properties\<close>

subsection \<open>The accumulation in closed form\<close>

lemma addToAll_compose: "addToAll g (addToAll h totals) = addToAll (\<lambda>k. h k + g k) totals"
  by (induction totals) (auto simp: addToAll_def)

lemma addToAll_zero: "addToAll (\<lambda>k. 0) totals = totals"
  by (induction totals) (auto simp: addToAll_def)

lemma keys_addToAll: "map fst (addToAll g totals) = map fst totals"
  by (induction totals) (auto simp: addToAll_def)

lemma map_of_addToAll_zero: "map_of (addToAll g zeroNutrition) k = Some (g k)"
  by (cases k) (simp_all add: addToAll_def zeroNutrition_def)

text \<open>Skipping a falsy \<open>nutrition[key]\<close> is the same as adding zero.\<close>

lemma addWeighted_addToAll:
  "addWeighted nutrition weight totals = addToAll (\<lambda>k. amount nutrition k * weight) totals"
  by (induction totals)
     (auto simp: addWeighted_def addToAll_def amount_def split: option.splits)

lemma addFallback_addToAll:
  "addFallback nutrition weight totals = addToAll (\<lambda>k. amount nutrition k * weight) totals"
  by (simp add: addFallback_def addToAll_def)

lemma contribution_simps:
  "contribution (fulfilled (Some v)) food = (\<lambda>k. amount v k * weightOf food)"
  "contribution (fulfilled None) food = (\<lambda>k. 0)"
  "contribution rejected food = (\<lambda>k. 0)"
  by (simp_all add: contribution_def fun_eq_iff)

lemma combineResults_closed:
  "combineResults totals rs =
     addToAll (\<lambda>k. \<Sum>(result, food) \<leftarrow> rs. contribution result food k) totals"
proof (induction rs arbitrary: totals)
  case Nil
  then show ?case by (simp add: addToAll_zero)
next
  case (Cons r rs)
  obtain result food where r: "r = (result, food)" by (cases r)
  have step:
    "(case result of
        fulfilled (Some nutrition) \<Rightarrow> addWeighted nutrition (weightOf food) totals
      | _ \<Rightarrow> totals) = addToAll (contribution result food) totals"
    by (simp add: contribution_simps addWeighted_addToAll addToAll_zero
             split: settled.splits option.splits)
  show ?case
    unfolding r combineResults.simps step Cons.IH addToAll_compose by simp
qed

lemma fallbackLoop_closed:
  "fallbackLoop totals foods =
     addToAll (\<lambda>k. \<Sum>food \<leftarrow> foods.
                     amount (getLocalNutritionData (name food)) k * weightOf food) totals"
proof (induction foods arbitrary: totals)
  case Nil
  then show ?case by (simp add: addToAll_zero)
next
  case (Cons f fs)
  show ?case
    unfolding fallbackLoop.simps Cons.IH addFallback_addToAll addToAll_compose by simp
qed

lemma getNutritionalData_closed:
  "getNutritionalData lookup foods =
     addToAll (\<lambda>k. \<Sum>food \<leftarrow> foods. contribution (lookup (name food)) food k)
       zeroNutrition"
proof -
  have z: "zip (map (\<lambda>food. lookup (name food)) foods) foods =
             map (\<lambda>food. (lookup (name food), food)) foods"
    by (induction foods) simp_all
  show ?thesis
    by (simp add: getNutritionalData_def combineResults_closed z comp_def)
qed

lemma getNutritionalData_at:
  "map_of (getNutritionalData lookup foods) k =
     Some (\<Sum>food \<leftarrow> foods. contribution (lookup (name food)) food k)"
  by (simp add: getNutritionalData_closed map_of_addToAll_zero)

lemma getFallbackNutrition_at:
  "map_of (getFallbackNutrition foods) k =
     Some (\<Sum>food \<leftarrow> foods. amount (getLocalNutritionData (name food)) k * weightOf food)"
  by (simp add: getFallbackNutrition_def fallbackLoop_closed map_of_addToAll_zero)

subsection \<open>Signs\<close>

lemma weightOf_nonneg:
  "(\<And>c. confidence food = Some c \<Longrightarrow> 0 \<le> c) \<Longrightarrow> 0 \<le> weightOf food"
  by (auto simp: weightOf_def split: option.splits)

lemma amount_nonneg: "(\<And>x. v k = Some x \<Longrightarrow> 0 \<le> x) \<Longrightarrow> 0 \<le> amount v k"
  by (auto simp: amount_def split: option.splits)

lemma nutrients_nonneg:
  assumes "0 \<le> c" "0 \<le> p" "0 \<le> cb" "0 \<le> f" "0 \<le> fi" "0 \<le> su" "0 \<le> so" "0 \<le> po"
    and "nutrients c p cb f fi su so po k = Some x"
  shows "0 \<le> x"
  using assms by (cases k) (simp_all add: nutrients_def)

lemma nutritionDB_nonneg:
  "(key, v) \<in> set nutritionDB \<Longrightarrow> v k = Some x \<Longrightarrow> 0 \<le> x"
  unfolding nutritionDB_def by (auto elim!: nutrients_nonneg [rotated -1])

lemma getLocalNutritionData_nonneg:
  assumes "getLocalNutritionData foodName k = Some x"
  shows "0 \<le> x"
proof (cases "find (\<lambda>(key, nutrition). includesStr (toLowerCase foodName) key
                                      \<or> includesStr key (toLowerCase foodName)) nutritionDB")
  case None
  with assms have "nutrients 50 2 8 1 1 1 10 50 k = Some x"
    by (simp add: getLocalNutritionData_def)
  then show ?thesis by (rule nutrients_nonneg [rotated -1]) simp_all
next
  case (Some e)
  obtain key v where e: "e = (key, v)" by (cases e)
  from Some e have "(key, v) \<in> set nutritionDB" using find_Some_mem by fastforce
  moreover from assms Some e have "v k = Some x" by (simp add: getLocalNutritionData_def)
  ultimately show ?thesis by (rule nutritionDB_nonneg)
qed

subsection \<open>Local lookups of the example foods\<close>

lemma example_local:
  "getLocalNutritionData ''rice'' = nutrients 130 2.7 28 0.3 0.4 0.1 1 35"
  "getLocalNutritionData ''chicken'' = nutrients 165 31 0 3.6 0 0 74 256"
  "getLocalNutritionData ''salt'' = nutrients 0 0 0 0 0 0 581 0"
  by (simp_all add: getLocalNutritionData_def nutritionDB_def toLowerCase_def toLowerChar_def)

lemma example_offline:
  "offlineLookup ''rice'' = fulfilled (Some (nutrients 130 2.7 28 0.3 0.4 0.1 1 35))"
  "offlineLookup ''chicken'' = fulfilled (Some (nutrients 165 31 0 3.6 0 0 74 256))"
  "offlineLookup ''salt'' = fulfilled (Some (nutrients 0 0 0 0 0 0 581 0))"
  by (simp_all add: offlineLookup_def getFoodNutrition_def example_local)

subsection \<open>The claims\<close>

text \<open>
  Claim C7: for every list of food items whose confidences are non-negative and whose
  resolved nutrient vectors are keywise non-negative, the meal-level vector carries all
  fifteen keys, each with a value of at least 0. The same holds of the fallback path,
  whose vectors come from the local table.
\<close>

theorem C7_aggregate_nonnegative:
  assumes conf: "\<forall>food \<in> set foods. \<forall>c. confidence food = Some c \<longrightarrow> 0 \<le> c"
    and vec: "\<forall>food \<in> set foods. \<forall>v. lookup (name food) = fulfilled (Some v) \<longrightarrow>
                (\<forall>k x. v k = Some x \<longrightarrow> 0 \<le> x)"
  shows "map fst (getNutritionalData lookup foods) = map fst zeroNutrition
       \<and> (\<forall>k. \<exists>x. map_of (getNutritionalData lookup foods) k = Some x \<and> 0 \<le> x)
       \<and> (\<forall>k. \<exists>x. map_of (getFallbackNutrition foods) k = Some x \<and> 0 \<le> x)"
proof -
  have c: "0 \<le> contribution (lookup (name food)) food k" if "food \<in> set foods" for food k
  proof (cases "lookup (name food)")
    case (fulfilled r)
    show ?thesis
    proof (cases r)
      case None
      with fulfilled show ?thesis by (simp add: contribution_def)
    next
      case (Some v)
      from vec that fulfilled Some have "0 \<le> amount v k" by (intro amount_nonneg) blast
      moreover from conf that have "0 \<le> weightOf food" by (intro weightOf_nonneg) blast
      ultimately show ?thesis using fulfilled Some by (simp add: contribution_def)
    qed
  next
    case rejected
    then show ?thesis by (simp add: contribution_def)
  qed
  have l: "0 \<le> amount (getLocalNutritionData (name food)) k * weightOf food"
    if "food \<in> set foods" for food k
  proof -
    have "0 \<le> amount (getLocalNutritionData (name food)) k"
      by (intro amount_nonneg) (rule getLocalNutritionData_nonneg)
    moreover from conf that have "0 \<le> weightOf food" by (intro weightOf_nonneg) blast
    ultimately show ?thesis by simp
  qed
  have "map fst (getNutritionalData lookup foods) = map fst zeroNutrition"
    by (simp add: getNutritionalData_closed keys_addToAll)
  moreover have "\<exists>x. map_of (getNutritionalData lookup foods) k = Some x \<and> 0 \<le> x" for k
    unfolding getNutritionalData_at using c by (auto intro!: sum_list_nonneg)
  moreover have "\<exists>x. map_of (getFallbackNutrition foods) k = Some x \<and> 0 \<le> x" for k
    unfolding getFallbackNutrition_at using l by (auto intro!: sum_list_nonneg)
  ultimately show ?thesis by blast
qed

theorem C7_aggregate_nonnegative_witness:
  "map fst (getNutritionalData offlineLookup exampleFoods) =
     [calories, protein, carbs, fat, fiber, sugar, sodium, potassium, cholesterol,
      saturatedFat, transFat, vitaminA, vitaminC, calcium, iron]
   \<and> (\<exists>x. map_of (getNutritionalData offlineLookup exampleFoods) calories = Some x \<and> 0 \<le> x)
   \<and> map_of (getNutritionalData offlineLookup exampleFoods) calories = Some 257.25
   \<and> map_of (getNutritionalData offlineLookup exampleFoods) iron = Some 0"
proof -
  have conf: "\<forall>food \<in> set exampleFoods. \<forall>c. confidence food = Some c \<longrightarrow> 0 \<le> c"
    by (simp add: exampleFoods_def)
  have r: "\<forall>k x. nutrients 130 2.7 28 0.3 0.4 0.1 1 35 k = Some x \<longrightarrow> 0 \<le> x"
    using nutrients_nonneg [of 130 "2.7" 28 "0.3" "0.4" "0.1" 1 35] by simp
  have ch: "\<forall>k x. nutrients 165 31 0 3.6 0 0 74 256 k = Some x \<longrightarrow> 0 \<le> x"
    using nutrients_nonneg [of 165 31 0 "3.6" 0 0 74 256] by simp
  have vec: "\<forall>food \<in> set exampleFoods. \<forall>v. offlineLookup (name food) = fulfilled (Some v) \<longrightarrow>
                (\<forall>k x. v k = Some x \<longrightarrow> 0 \<le> x)"
    using r ch by (simp add: exampleFoods_def example_offline)
  note t = C7_aggregate_nonnegative [OF conf vec]
  have cal: "map_of (getNutritionalData offlineLookup exampleFoods) calories = Some 257.25"
    by (simp add: getNutritionalData_at exampleFoods_def example_offline contribution_def
          amount_def nutrients_def weightOf_def)
  have ir: "map_of (getNutritionalData offlineLookup exampleFoods) iron = Some 0"
    by (simp add: getNutritionalData_at exampleFoods_def example_offline contribution_def
          amount_def nutrients_def weightOf_def)
  from t have keys: "map fst (getNutritionalData offlineLookup exampleFoods) =
     [calories, protein, carbs, fat, fiber, sugar, sodium, potassium, cholesterol,
      saturatedFat, transFat, vitaminA, vitaminC, calcium, iron]"
    by (simp add: zeroNutrition_def)
  from t have ex: "\<exists>x. map_of (getNutritionalData offlineLookup exampleFoods) calories
                         = Some x \<and> 0 \<le> x"
    by blast
  from keys ex cal ir show ?thesis by blast
qed






section \<open>Categorizer: properties\<close>

text \<open>
  Claim C6, as stated, fails in its last case: the hook never assigns \<open>unknown\<close>. With
  no findings list the category stays what it was (here: none, or healthy), and so it does
  for a non-empty list that holds neither a danger nor a warning.
\<close>

theorem C6_no_findings_category_unchanged:
  "category (preSave \<lparr>aiAnalysis = None, category = None\<rparr>) = None
   \<and> category (preSave \<lparr>aiAnalysis = Some \<lparr>healthRisks = None\<rparr>, category = Some healthy\<rparr>)
       = Some healthy
   \<and> category (preSave \<lparr>aiAnalysis = Some \<lparr>healthRisks = Some [lowRisk]\<rparr>,
                         category = Some unhealthy\<rparr>) = Some unhealthy"
  by (simp add: preSave_def lowRisk_def)

text \<open>
  Claim C6, amended: when the findings list is present, the category after the hook is
  unhealthy if any finding has severity danger, otherwise moderate if any has severity
  warning, otherwise healthy if the list is empty. In every other case (no analysis, no
  findings list, or a non-empty list with neither severity) the hook leaves the category
  as it was; it never sets unknown. The hook changes nothing else.
\<close>

theorem C6_category_from_severities:
  "category (preSave m) =
     (case Option.bind (aiAnalysis m) healthRisks of
        None \<Rightarrow> category m
      | Some rs \<Rightarrow>
          if danger \<in> severity ` set rs then Some unhealthy
          else if warning \<in> severity ` set rs then Some moderate
          else if rs = [] then Some healthy
          else category m)
   \<and> (category (preSave m) = Some unknown \<longrightarrow> category m = Some unknown)
   \<and> aiAnalysis (preSave m) = aiAnalysis m"
proof -
  have f: "(filter (\<lambda>risk. severity risk = s) rs = []) = (s \<notin> severity ` set rs)" for s rs
    by (auto simp: filter_empty_conv)
  show ?thesis
    by (auto simp: preSave_def Let_def f split: option.splits)
qed

theorem C6_category_witness:
  "category (preSave \<lparr>aiAnalysis = Some \<lparr>healthRisks = Some [carbsFinding 70, sugarFinding 20]\<rparr>,
                       category = None\<rparr>) = Some unhealthy
   \<and> category (preSave \<lparr>aiAnalysis = Some \<lparr>healthRisks = Some [carbsFinding 70]\<rparr>,
                         category = None\<rparr>) = Some moderate
   \<and> category (preSave \<lparr>aiAnalysis = Some \<lparr>healthRisks = Some []\<rparr>,
                         category = Some unhealthy\<rparr>) = Some healthy
   \<and> category (preSave \<lparr>aiAnalysis = Some \<lparr>healthRisks = None\<rparr>,
                         category = Some unknown\<rparr>) = Some unknown"
  using
    C6_category_from_severities
      [of "\<lparr>aiAnalysis = Some \<lparr>healthRisks = Some [carbsFinding 70, sugarFinding 20]\<rparr>,
            category = None\<rparr>"]
    C6_category_from_severities
      [of "\<lparr>aiAnalysis = Some \<lparr>healthRisks = Some [carbsFinding 70]\<rparr>, category = None\<rparr>"]
    C6_category_from_severities
      [of "\<lparr>aiAnalysis = Some \<lparr>healthRisks = Some []\<rparr>, category = Some unhealthy\<rparr>"]
    C6_category_from_severities
      [of "\<lparr>aiAnalysis = Some \<lparr>healthRisks = None\<rparr>, category = Some unknown\<rparr>"]
  by (simp add: finding_fields)

end
